theory Spec2Isabelle
  imports Main "HOL-Library.Word"
begin

unbundle bit_operations_syntax

section \<open>Machine types and error numbers\<close>

text \<open>
  The C++ sources use fixed-width unsigned integers for kernel object ids, flags and
  property values; they are words here. Return codes are C \<open>int\<close>s that only ever hold
  zero, a small negated \<open>errno\<close> or a kernel answer that is passed through unchanged, so
  they are mathematical integers. A C++ data member \<open>foo_\<close> is the record field \<open>m_foo\<close>
  (a trailing underscore is not a legal name here).
\<close>

type_synonym u32 = "32 word"
type_synonym u64 = "64 word"

text \<open>The \<open>errno\<close> values of Linux (\<open>errno-base.h\<close>) that the sources negate and return.\<close>

definition ENOENT :: int where "ENOENT = 2"
definition ENOMEM :: int where "ENOMEM = 12"
definition EACCES :: int where "EACCES = 13"
definition ENODEV :: int where "ENODEV = 19"
definition EINVAL :: int where "EINVAL = 22"

section \<open>DrmProperty\<close>

text \<open>
  \<open>enum DrmPropertyType\<close> of \<open>DrmProperty.h\<close>; a default-constructed property has type
  \<open>DRM_PROPERTY_TYPE_INVALID\<close> and id 0.
\<close>

datatype DrmPropertyType =
    DRM_PROPERTY_TYPE_INT
  | DRM_PROPERTY_TYPE_ENUM
  | DRM_PROPERTY_TYPE_OBJECT
  | DRM_PROPERTY_TYPE_BLOB
  | DRM_PROPERTY_TYPE_BITMASK
  | DRM_PROPERTY_TYPE_INVALID

record DrmPropertyEnum =
  e_value :: u64
  e_name :: string

record DrmProperty =
  m_obj_id :: u32
  m_id :: u32
  m_type :: DrmPropertyType
  m_flags :: u32
  m_name :: string
  m_value :: u64
  m_values :: "u64 list"
  m_enums :: "DrmPropertyEnum list"
  m_blob_ids :: "u32 list"

text \<open>
  The kernel's \<open>drmModePropertyRes\<close>: the three counted arrays are lists, their counts the
  lengths; the field \<open>p_foo\<close> is the member \<open>foo\<close>.
\<close>

record drmModePropertyRes =
  p_prop_id :: u32
  p_flags :: u32
  p_name :: string
  p_values :: "u64 list"
  p_enums :: "DrmPropertyEnum list"
  p_blob_ids :: "u32 list"

text \<open>Property flag bits of the kernel's \<open>drm_mode.h\<close>.\<close>

definition DRM_MODE_PROP_RANGE :: u32 where "DRM_MODE_PROP_RANGE = 2"
definition DRM_MODE_PROP_ENUM :: u32 where "DRM_MODE_PROP_ENUM = 8"
definition DRM_MODE_PROP_BLOB :: u32 where "DRM_MODE_PROP_BLOB = 16"
definition DRM_MODE_PROP_BITMASK :: u32 where "DRM_MODE_PROP_BITMASK = 32"
definition DRM_MODE_PROP_OBJECT :: u32 where "DRM_MODE_PROP_OBJECT = 64"

definition default_DrmProperty :: DrmProperty where
  "default_DrmProperty =
     \<lparr>m_obj_id = 0, m_id = 0, m_type = DRM_PROPERTY_TYPE_INVALID, m_flags = 0, m_name = [],
      m_value = 0, m_values = [], m_enums = [], m_blob_ids = []\<rparr>"

text \<open>
  \<open>DrmProperty::Init\<close>: the scalar members are overwritten, the three vectors are
  appended to (\<open>emplace_back\<close>), and the type changes only when one of the five flag
  tests succeeds, tried in the order of the source.
\<close>

definition DrmProperty_Init :: "DrmProperty \<Rightarrow> u32 \<Rightarrow> drmModePropertyRes \<Rightarrow> u64 \<Rightarrow> DrmProperty" where
  "DrmProperty_Init this obj_id p v =
     (let fl = p_flags p in
      this\<lparr>m_obj_id := obj_id, m_id := p_prop_id p, m_flags := fl, m_name := p_name p,
           m_value := v,
           m_values := m_values this @ p_values p,
           m_enums := m_enums this @ p_enums p,
           m_blob_ids := m_blob_ids this @ p_blob_ids p,
           m_type :=
             (if fl AND DRM_MODE_PROP_RANGE \<noteq> 0 then DRM_PROPERTY_TYPE_INT
              else if fl AND DRM_MODE_PROP_ENUM \<noteq> 0 then DRM_PROPERTY_TYPE_ENUM
              else if fl AND DRM_MODE_PROP_OBJECT \<noteq> 0 then DRM_PROPERTY_TYPE_OBJECT
              else if fl AND DRM_MODE_PROP_BLOB \<noteq> 0 then DRM_PROPERTY_TYPE_BLOB
              else if fl AND DRM_MODE_PROP_BITMASK \<noteq> 0 then DRM_PROPERTY_TYPE_BITMASK
              else m_type this)\<rparr>)"

text \<open>
  Reading a \<open>std::vector\<close> with \<open>operator[]\<close> outside its bounds is undefined behaviour.
  The model makes the read checked, so that a function that could read out of bounds
  has \<open>Inl OutOfBounds\<close> among its results.
\<close>

datatype fault = OutOfBounds | NullDereference

definition vector_at :: "'a list \<Rightarrow> nat \<Rightarrow> fault + 'a" where
  "vector_at xs i = (if i < length xs then Inr (xs ! i) else Inl OutOfBounds)"

text \<open>
  \<open>DrmProperty::value\<close>, returning the tuple (error code, value). The comparison
  \<open>value_ >= enums_.size()\<close> is between unsigned 64-bit quantities.
\<close>

definition DrmProperty_value :: "DrmProperty \<Rightarrow> fault + (int \<times> u64)" where
  "DrmProperty_value this =
     (if m_type this = DRM_PROPERTY_TYPE_BLOB then Inr (0, m_value this)
      else if m_values this = [] then Inr (- ENOENT, 0)
      else (case m_type this of
              DRM_PROPERTY_TYPE_INT \<Rightarrow> Inr (0, m_value this)
            | DRM_PROPERTY_TYPE_ENUM \<Rightarrow>
                (if unat (m_value this) \<ge> length (m_enums this) then Inr (- ENOENT, 0)
                 else (case vector_at (m_enums this) (unat (m_value this)) of
                         Inl f \<Rightarrow> Inl f
                       | Inr e \<Rightarrow> Inr (0, e_value e)))
            | DRM_PROPERTY_TYPE_OBJECT \<Rightarrow> Inr (0, m_value this)
            | DRM_PROPERTY_TYPE_BITMASK \<Rightarrow> Inr (- EINVAL, 0)
            | _ \<Rightarrow> Inr (- EINVAL, 0)))"

text \<open>
  \<open>DrmProperty::AtomicSet\<close>. The atomic request \<open>drmModeAtomicReq\<close> is the list of the
  (object id, property id, value) triples added so far. \<open>drmModeAtomicAddProperty\<close>
  belongs to libdrm, not to this repository; it is the parameter \<open>add\<close>, which returns
  libdrm's \<open>int\<close> result together with the request as libdrm leaves it.
\<close>

type_synonym drmModeAtomicReq = "(u32 \<times> u32 \<times> u64) list"

type_synonym atomic_add = "drmModeAtomicReq \<Rightarrow> u32 \<Rightarrow> u32 \<Rightarrow> u64 \<Rightarrow> int \<times> drmModeAtomicReq"

definition AtomicSet :: "atomic_add \<Rightarrow> DrmProperty \<Rightarrow> drmModeAtomicReq \<Rightarrow> u64 \<Rightarrow> bool \<times> drmModeAtomicReq" where
  "AtomicSet add this pset v =
     (if m_id this = 0 then (False, pset)
      else (case add pset (m_obj_id this) (m_id this) v of
              (r, pset') \<Rightarrow> if r < 0 then (False, pset') else (True, pset')))"

text \<open>
  libdrm's \<open>drmModeAtomicAddProperty\<close> as its source reads, for a request that is not
  null: an object id or property id of 0 is refused with \<open>-EINVAL\<close>; when the item array
  has to grow and the allocation fails (\<open>alloc_ok\<close> is false) the result is \<open>-ENOMEM\<close>;
  otherwise the triple is stored after the last item and the new item count, which is
  positive, is returned. In the two refusals the request is left as it was.
\<close>

definition drmModeAtomicAddProperty :: "bool \<Rightarrow> atomic_add" where
  "drmModeAtomicAddProperty alloc_ok req object_id property_id v =
     (if object_id = 0 \<or> property_id = 0 then (- EINVAL, req)
      else if \<not> alloc_ok then (- ENOMEM, req)
      else (int (length req) + 1, req @ [(object_id, property_id, v)]))"

section \<open>DrmDevice\<close>

text \<open>
  The device talks to the kernel through libdrm. A call's outcome is decided by the
  kernel, not by the program, so each function below takes a record of the answers the
  kernel gives to the calls that function makes, and returns what the C++ returns
  together with the members it wrote.
\<close>

text \<open>
  \<open>MakeSharedFd\<close> and \<open>MakeUniqueFd\<close> of \<open>utils/fd.h\<close>: a negative descriptor gives an
  empty (null) handle, any other a handle owning the descriptor.
\<close>

type_synonym SharedFd = "int option"

definition MakeSharedFd :: "int \<Rightarrow> SharedFd" where
  "MakeSharedFd fd = (if fd < 0 then None else Some fd)"

definition MakeUniqueFd :: "int \<Rightarrow> int option" where
  "MakeUniqueFd fd = (if fd < 0 then None else Some fd)"

text \<open>
  The kernel's \<open>drmModeRes\<close>: each counted id array is a list and \<open>count_crtcs\<close>,
  \<open>count_connectors\<close> and \<open>count_encoders\<close> (C \<open>int\<close>s) are the lengths.
\<close>

record drmModeRes =
  min_width :: u32
  max_width :: u32
  min_height :: u32
  max_height :: u32
  crtcs :: "u32 list"
  encoders :: "u32 list"
  connectors :: "u32 list"

definition count_crtcs :: "drmModeRes \<Rightarrow> int" where
  "count_crtcs res = int (length (crtcs res))"

definition count_encoders :: "drmModeRes \<Rightarrow> int" where
  "count_encoders res = int (length (encoders res))"

definition count_connectors :: "drmModeRes \<Rightarrow> int" where
  "count_connectors res = int (length (connectors res))"

text \<open>
  libdrm's \<open>drmGetCap\<close> stores the capability through the pointer only when the ioctl
  succeeds. The kernel's answer is the pair (result, value); \<open>cur\<close> is what the
  caller's variable held before the call.
\<close>

definition drmGetCap :: "int \<times> u64 \<Rightarrow> u64 \<Rightarrow> int \<times> u64" where
  "drmGetCap answer cur = (if fst answer = 0 then (0, snd answer) else (fst answer, cur))"

text \<open>The kernel's answers to the calls of \<open>DrmDevice::Init\<close>, in the order it makes them.
  \<open>DrmCrtc::CreateInstance\<close>, \<open>DrmEncoder::CreateInstance\<close>, \<open>DrmConnector::CreateInstance\<close>
  and \<open>DrmPlane::CreateInstance\<close> are not among the sources; what they return for an id is
  a parameter: whether an object comes back, and for a connector whether it is a
  writeback connector.\<close>

record init_answers =
  open_fd :: int
  set_cap_universal_planes :: int
  set_cap_atomic :: int
  set_cap_writeback :: int
  get_cap_addfb2_modifiers :: "int \<times> u64"
  get_cap_cursor_width :: "int \<times> u64"
  get_cap_cursor_height :: "int \<times> u64"
  is_master :: int
  mode_res :: "drmModeRes option"
  crtc_instance :: "u32 \<Rightarrow> bool"
  encoder_instance :: "u32 \<Rightarrow> bool"
  connector_instance :: "u32 \<Rightarrow> bool option"
  plane_res :: "u32 list option"
  plane_instance :: "u32 \<Rightarrow> bool"

text \<open>The members of \<open>DrmDevice\<close> that \<open>Init\<close> writes. An object created for a kernel id
  is kept as the pair of the id and the index it was created with.\<close>

record DrmDevice =
  m_fd :: SharedFd
  m_HasAddFb2ModifiersSupport :: bool
  m_cap_cursor_size :: "(u64 \<times> u64) option"
  m_min_resolution :: "u32 \<times> u32"
  m_max_resolution :: "u32 \<times> u32"
  m_crtcs :: "(u32 \<times> nat) list"
  m_encoders :: "(u32 \<times> nat) list"
  m_connectors :: "(u32 \<times> nat) list"
  m_writeback_connectors :: "(u32 \<times> nat) list"
  m_planes :: "u32 list"

definition new_DrmDevice :: DrmDevice where
  "new_DrmDevice =
     \<lparr>m_fd = None, m_HasAddFb2ModifiersSupport = False, m_cap_cursor_size = None,
      m_min_resolution = (0, 0), m_max_resolution = (0, 0), m_crtcs = [], m_encoders = [],
      m_connectors = [], m_writeback_connectors = [], m_planes = []\<rparr>"

datatype log_line = ALOGE string | ALOGW string | ALOGI string

text \<open>The three loops of \<open>Init\<close> over the ids of the mode resources. \<open>i\<close> is the loop
  counter; an id for which no object comes back is skipped.\<close>

fun create_indexed :: "(u32 \<Rightarrow> bool) \<Rightarrow> nat \<Rightarrow> u32 list \<Rightarrow> (u32 \<times> nat) list" where
  "create_indexed inst i [] = []"
| "create_indexed inst i (x # xs) =
     (if inst x then (x, i) # create_indexed inst (Suc i) xs
      else create_indexed inst (Suc i) xs)"

fun create_connectors ::
  "(u32 \<Rightarrow> bool option) \<Rightarrow> nat \<Rightarrow> u32 list \<Rightarrow> (u32 \<times> nat) list \<times> (u32 \<times> nat) list" where
  "create_connectors inst i [] = ([], [])"
| "create_connectors inst i (x # xs) =
     (case create_connectors inst (Suc i) xs of
        (wb, conn) \<Rightarrow>
          (case inst x of
             None \<Rightarrow> (wb, conn)
           | Some IsWriteback \<Rightarrow> if IsWriteback then ((x, i) # wb, conn) else (wb, (x, i) # conn)))"

fun create_planes :: "(u32 \<Rightarrow> bool) \<Rightarrow> u32 list \<Rightarrow> u32 list" where
  "create_planes inst [] = []"
| "create_planes inst (x # xs) =
     (if inst x then x # create_planes inst xs else create_planes inst xs)"

text \<open>
  \<open>DrmDevice::Init\<close>. The result is the returned \<open>int\<close>, the device as \<open>Init\<close> leaves it
  and the lines it logs. \<open>have_writeback_cap\<close> says whether the build's libdrm defines
  \<open>DRM_CLIENT_CAP_WRITEBACK_CONNECTORS\<close> (the \<open>#ifdef\<close>). Every \<open>return\<close> of the source
  is one branch, in the source's order.
\<close>

definition Init :: "bool \<Rightarrow> init_answers \<Rightarrow> DrmDevice \<Rightarrow> int \<times> DrmDevice \<times> log_line list" where
  "Init have_writeback_cap k this =
     (let this = this\<lparr>m_fd := MakeSharedFd (open_fd k)\<rparr> in
      if m_fd this = None then (- ENODEV, this, [ALOGE ''Failed to open dri''])
      else if set_cap_universal_planes k \<noteq> 0
        then (set_cap_universal_planes k, this, [ALOGE ''Failed to set universal plane cap''])
      else if set_cap_atomic k \<noteq> 0
        then (set_cap_atomic k, this, [ALOGE ''Failed to set atomic cap''])
      else
        let log1 = (if have_writeback_cap \<and> set_cap_writeback k \<noteq> 0
                    then [ALOGI ''Failed to set writeback cap''] else []);
            got = drmGetCap (get_cap_addfb2_modifiers k) 0;
            log2 = (if fst got \<noteq> 0
                    then [ALOGW ''drmGetCap failed. Fallback to no modifier support.''] else []);
            cap_value = (if fst got \<noteq> 0 then 0 else snd got);
            this = this\<lparr>m_HasAddFb2ModifiersSupport := (cap_value \<noteq> 0)\<rparr>;
            cw = drmGetCap (get_cap_cursor_width k) 0;
            ch = drmGetCap (get_cap_cursor_height k) 0;
            this = (if fst cw = 0 \<and> fst ch = 0
                    then this\<lparr>m_cap_cursor_size := Some (snd cw, snd ch)\<rparr> else this);
            log = log1 @ log2
        in
        if is_master k = 0 then (- EACCES, this, log @ [ALOGE ''DRM/KMS master access required''])
        else (case mode_res k of
                None \<Rightarrow> (- ENODEV, this, log @ [ALOGE ''Failed to get DrmDevice resources''])
              | Some res \<Rightarrow>
                  let this = this\<lparr>m_min_resolution := (min_width res, min_height res),
                                  m_max_resolution := (max_width res, max_height res),
                                  m_crtcs := m_crtcs this @ create_indexed (crtc_instance k) 0 (crtcs res),
                                  m_encoders :=
                                    m_encoders this @ create_indexed (encoder_instance k) 0 (encoders res),
                                  m_writeback_connectors :=
                                    m_writeback_connectors this
                                      @ fst (create_connectors (connector_instance k) 0 (connectors res)),
                                  m_connectors :=
                                    m_connectors this
                                      @ snd (create_connectors (connector_instance k) 0 (connectors res))\<rparr>
                  in (case plane_res k of
                        None \<Rightarrow> (- ENOENT, this, log @ [ALOGE ''Failed to get plane resources''])
                      | Some planes \<Rightarrow>
                          (0, this\<lparr>m_planes := m_planes this @ create_planes (plane_instance k) planes\<rparr>,
                           log))))"

text \<open>\<open>DrmDevice::IsKMSDev\<close>: the answers are those of its own \<open>open\<close> and of fetching the
  mode resources.\<close>

record probe_answers =
  probe_open_fd :: int
  probe_mode_res :: "drmModeRes option"

definition IsKMSDev :: "probe_answers \<Rightarrow> bool" where
  "IsKMSDev k =
     (if MakeUniqueFd (probe_open_fd k) = None then False
      else (case probe_mode_res k of
              None \<Rightarrow> False
            | Some res \<Rightarrow> count_crtcs res > 0 \<and> count_connectors res > 0 \<and> count_encoders res > 0))"

text \<open>\<open>DrmDevice::CreateInstance\<close>: \<open>None\<close> is the empty \<open>unique_ptr\<close>.\<close>

definition CreateInstance :: "bool \<Rightarrow> probe_answers \<Rightarrow> init_answers \<Rightarrow> DrmDevice option" where
  "CreateInstance have_writeback_cap kp ki =
     (if \<not> IsKMSDev kp then None
      else (case Init have_writeback_cap ki new_DrmDevice of
              (ret, device, _) \<Rightarrow> if ret \<noteq> 0 then None else Some device))"

subsection \<open>GetProperty\<close>

text \<open>
  The kernel's answers to \<open>DrmDevice::GetProperty\<close>: \<open>object_properties obj_id obj_type\<close> is
  what \<open>drmModeObjectGetProperties\<close> returns, \<open>None\<close> for a null pointer and otherwise the
  pairs \<open>(props[i], prop_values[i])\<close>; \<open>property_res id\<close> is what \<open>drmModeGetProperty\<close>
  returns, \<open>None\<close> for a null pointer.
\<close>

record property_answers =
  object_properties :: "u32 \<Rightarrow> u32 \<Rightarrow> (u32 \<times> u64) list option"
  property_res :: "u32 \<Rightarrow> drmModePropertyRes option"

text \<open>
  The loop of \<open>GetProperty\<close>: it stops at the first property whose name compares equal
  (\<open>!found\<close> in the loop condition) and initialises \<open>*property\<close> from it. The source reads
  \<open>p->name\<close> with no null check, so a null \<open>p\<close> is the fault \<open>NullDereference\<close>.
\<close>

fun GetProperty_loop ::
  "property_answers \<Rightarrow> u32 \<Rightarrow> string \<Rightarrow> DrmProperty \<Rightarrow> (u32 \<times> u64) list \<Rightarrow> fault + (bool \<times> DrmProperty)" where
  "GetProperty_loop k obj_id prop_name property [] = Inr (False, property)"
| "GetProperty_loop k obj_id prop_name property ((pid, pv) # rest) =
     (case property_res k pid of
        None \<Rightarrow> Inl NullDereference
      | Some p \<Rightarrow>
          if p_name p = prop_name then Inr (True, DrmProperty_Init property obj_id p pv)
          else GetProperty_loop k obj_id prop_name property rest)"

definition GetProperty ::
  "property_answers \<Rightarrow> u32 \<Rightarrow> u32 \<Rightarrow> string \<Rightarrow> DrmProperty \<Rightarrow> fault + (int \<times> DrmProperty)" where
  "GetProperty k obj_id obj_type prop_name property =
     (case object_properties k obj_id obj_type of
        None \<Rightarrow> Inr (- ENODEV, property)
      | Some props \<Rightarrow>
          (case GetProperty_loop k obj_id prop_name property props of
             Inl f \<Rightarrow> Inl f
           | Inr (found, property') \<Rightarrow> Inr (if found then 0 else - ENOENT, property')))"

subsection \<open>Kernel resources: dumb buffers and property blobs\<close>

text \<open>
  The calls that acquire or release a kernel resource, recorded in the order the
  program makes them. A function that makes such calls returns the list of its calls
  next to its result.
\<close>

datatype kcall =
    MODE_CREATE_DUMB u32 u32 u32
  | MODE_MAP_DUMB u32
  | MMAP u64 u64
  | MUNMAP u64
  | PRIME_HANDLE_TO_FD u32
  | MODE_DESTROY_DUMB u32
  | MODE_CREATEPROPBLOB u64 u32
  | MODE_DESTROYPROPBLOB u32

datatype BufferColorSpace =
  ColorSpace_kUndefined | ColorSpace_kItuRec601 | ColorSpace_kItuRec709 | ColorSpace_kItuRec2020

datatype BufferSampleRange =
  SampleRange_kUndefined | SampleRange_kFullRange | SampleRange_kLimitedRange

datatype BufferBlendMode =
  BlendMode_kUndefined | BlendMode_kNone | BlendMode_kPreMult | BlendMode_kCoverage

text \<open>\<open>BufferInfo\<close> as \<open>CreateBufferForModeset\<close> fills it: the four-element arrays are
  lists, \<open>fds_shared\<close> is the descriptor the shared \<open>DumbBufferFd\<close> object owns.\<close>

record BufferInfo =
  bi_width :: u32
  bi_height :: u32
  bi_format :: u32
  bi_pitches :: "u32 list"
  bi_prime_fds :: "int list"
  bi_modifiers :: "u64 list"
  bi_color_space :: BufferColorSpace
  bi_sample_range :: BufferSampleRange
  bi_blend_mode :: BufferBlendMode
  bi_fds_shared :: SharedFd

text \<open>Format constants of \<open>drm_fourcc.h\<close>.\<close>

definition DRM_FORMAT_XRGB8888 :: u32 where "DRM_FORMAT_XRGB8888 = 0x34325258"
definition DRM_FORMAT_MOD_NONE :: u64 where "DRM_FORMAT_MOD_NONE = 0"

text \<open>The kernel's answers to the calls of \<open>CreateBufferForModeset\<close>: the result of each
  ioctl with the fields the kernel fills in, whether \<open>mmap\<close> gave a mapping, and the
  results of \<open>munmap\<close> and of the prime export with the descriptor it gives.\<close>

record dumb_answers =
  create_ret :: int
  create_handle :: u32
  create_pitch :: u32
  create_size :: u64
  map_ret :: int
  map_offset :: u64
  mmap_ok :: bool
  munmap_ret :: int
  prime_ret :: int
  prime_fd :: int

text \<open>The code after the label \<open>done\<close>: the handle is destroyed when it is greater
  than 0.\<close>

definition done_label :: "u32 \<Rightarrow> kcall list" where
  "done_label handle = (if handle > 0 then [MODE_DESTROY_DUMB handle] else [])"

text \<open>
  \<open>DrmDevice::CreateBufferForModeset\<close>: the returned \<open>optional\<close> and the kernel calls
  made. A failed create returns at once; each later failure jumps to \<open>done\<close> with the
  result still empty; the last path sets the result and falls through to \<open>done\<close>.
\<close>

definition CreateBufferForModeset ::
  "dumb_answers \<Rightarrow> u32 \<Rightarrow> u32 \<Rightarrow> BufferInfo option \<times> kcall list" where
  "CreateBufferForModeset k width height =
     (let kDumbBufferFormat = DRM_FORMAT_XRGB8888;
          kDumbBufferBpp = 32;
          created = [MODE_CREATE_DUMB height width kDumbBufferBpp]
      in
      if create_ret k \<noteq> 0 then (None, created)
      else
        let handle = create_handle k;
            buffer_info =
              \<lparr>bi_width = width, bi_height = height, bi_format = kDumbBufferFormat,
               bi_pitches = [create_pitch k, 0, 0, 0], bi_prime_fds = [- 1, - 1, - 1, - 1],
               bi_modifiers = [DRM_FORMAT_MOD_NONE, 0, 0, 0],
               bi_color_space = ColorSpace_kUndefined, bi_sample_range = SampleRange_kUndefined,
               bi_blend_mode = BlendMode_kNone, bi_fds_shared = None\<rparr>;
            mapped = created @ [MODE_MAP_DUMB handle]
        in
        if map_ret k \<noteq> 0 then (None, mapped @ done_label handle)
        else
          let mmapped = mapped @ [MMAP (create_size k) (map_offset k)] in
          if \<not> mmap_ok k then (None, mmapped @ done_label handle)
          else
            let exported = mmapped @ [MUNMAP (create_size k), PRIME_HANDLE_TO_FD handle] in
            if prime_ret k \<noteq> 0 then (None, exported @ done_label handle)
            else
              (Some (buffer_info\<lparr>bi_prime_fds := (bi_prime_fds buffer_info)[0 := prime_fd k],
                                 bi_fds_shared := MakeSharedFd (prime_fd k)\<rparr>),
               exported @ done_label handle))"

text \<open>
  \<open>DrmDevice::RegisterUserPropertyBlob\<close>. \<open>data\<close> is the address passed as \<open>void *\<close> and
  \<open>len\<close> the \<open>size_t\<close> argument \<open>length\<close>, a 64-bit word (a 32-bit \<open>size_t\<close> is the values below
  \<open>2 ^ 32\<close>). The ioctl argument \<open>drm_mode_create_blob\<close> has the fields \<open>__u64 data\<close> and
  \<open>__u32 length\<close>, so the assignment \<open>create_blob.length = length\<close> keeps the low 32 bits
  of the length, and that is what the call \<open>MODE_CREATEPROPBLOB data length\<close> carries. The
  kernel answers with the ioctl's result and the blob id.
  \<open>DrmModeUserPropertyBlobUnique\<close> is a \<open>unique_ptr\<close> with a deleter: it is empty (\<open>None\<close>)
  or owns one blob id.
\<close>

type_synonym DrmModeUserPropertyBlobUnique = "u32 option"

definition RegisterUserPropertyBlob ::
  "int \<times> u32 \<Rightarrow> u64 \<Rightarrow> u64 \<Rightarrow> DrmModeUserPropertyBlobUnique \<times> kcall list" where
  "RegisterUserPropertyBlob answer data len =
     (let create_blob_length = (ucast len :: u32);
          create_blob_data = data;
          called = [MODE_CREATEPROPBLOB create_blob_data create_blob_length]
      in if fst answer \<noteq> 0 then (None, called)
         else (Some (snd answer), called))"

text \<open>
  Releasing the owning handle (its destructor or \<open>reset\<close>): a handle that owns a blob
  runs the deleter of \<open>RegisterUserPropertyBlob\<close>, which issues the destroy ioctl for
  the id, and is empty afterwards; an empty handle runs nothing. A \<open>unique_ptr\<close> cannot
  be copied, so the handle returned is the only owner.
\<close>

definition release_blob :: "DrmModeUserPropertyBlobUnique \<Rightarrow> DrmModeUserPropertyBlobUnique \<times> kcall list" where
  "release_blob h = (case h of None \<Rightarrow> (None, []) | Some blob_id \<Rightarrow> (None, [MODE_DESTROYPROPBLOB blob_id]))"

text \<open>Releasing a handle \<open>n\<close> times in a row, collecting the calls.\<close>

fun release_blob_times :: "nat \<Rightarrow> DrmModeUserPropertyBlobUnique \<Rightarrow> kcall list" where
  "release_blob_times 0 h = []"
| "release_blob_times (Suc n) h = snd (release_blob h) @ release_blob_times n (fst (release_blob h))"

definition is_destroy_dumb :: "kcall \<Rightarrow> bool" where
  "is_destroy_dumb c = (case c of MODE_DESTROY_DUMB _ \<Rightarrow> True | _ \<Rightarrow> False)"

definition is_mmap :: "kcall \<Rightarrow> bool" where
  "is_mmap c = (case c of MMAP _ _ \<Rightarrow> True | _ \<Rightarrow> False)"

definition is_munmap :: "kcall \<Rightarrow> bool" where
  "is_munmap c = (case c of MUNMAP _ \<Rightarrow> True | _ \<Rightarrow> False)"

definition is_prime_export :: "kcall \<Rightarrow> bool" where
  "is_prime_export c = (case c of PRIME_HANDLE_TO_FD _ \<Rightarrow> True | _ \<Rightarrow> False)"

subsection \<open>Properties of an object, and concrete kernels\<close>

text \<open>A property named \<open>nm\<close> exists among the properties \<open>props\<close> of an object.\<close>

definition has_property_named :: "property_answers \<Rightarrow> (u32 \<times> u64) list \<Rightarrow> string \<Rightarrow> bool" where
  "has_property_named k props nm =
     list_ex (\<lambda>(pid, pv). case property_res k pid of None \<Rightarrow> False | Some p \<Rightarrow> p_name p = nm) props"

text \<open>\<open>drmModeGetProperty\<close> gives a property for every id in \<open>props\<close>.\<close>

definition all_resolve :: "property_answers \<Rightarrow> (u32 \<times> u64) list \<Rightarrow> bool" where
  "all_resolve k props = list_all (\<lambda>(pid, pv). property_res k pid \<noteq> None) props"

text \<open>A kernel that knows no object, and one with a single plane, id 31, that has an
  enum property \<open>type\<close> and a range property \<open>zpos\<close>.\<close>

definition no_object :: property_answers where
  "no_object = \<lparr>object_properties = (\<lambda>obj_id obj_type. None), property_res = (\<lambda>pid. None)\<rparr>"

definition plane_props :: property_answers where
  "plane_props =
     \<lparr>object_properties = (\<lambda>obj_id obj_type. if obj_id = 31 then Some [(7, 1), (8, 0)] else None),
      property_res = (\<lambda>pid.
         if pid = 7 then Some \<lparr>p_prop_id = 7, p_flags = 8, p_name = ''type'', p_values = [0, 1, 2],
                               p_enums = [\<lparr>e_value = 0, e_name = ''Overlay''\<rparr>,
                                          \<lparr>e_value = 1, e_name = ''Primary''\<rparr>], p_blob_ids = []\<rparr>
         else if pid = 8 then Some \<lparr>p_prop_id = 8, p_flags = 2, p_name = ''zpos'', p_values = [0, 3],
                               p_enums = [], p_blob_ids = []\<rparr>
         else None)\<rparr>"

text \<open>A device on which every mandatory step of \<open>Init\<close> succeeds, while enabling the
  writeback capability and querying the modifiers capability both fail.\<close>

definition good_res :: drmModeRes where
  "good_res = \<lparr>min_width = 0, max_width = 4096, min_height = 0, max_height = 4096,
               crtcs = [40, 41], encoders = [50], connectors = [60, 61]\<rparr>"

definition wb_connector_61 :: "u32 \<Rightarrow> bool option" where
  "wb_connector_61 c = Some (c = 61)"

definition every_id :: "u32 \<Rightarrow> bool" where
  "every_id x = True"

definition lenient_answers :: init_answers where
  "lenient_answers =
     \<lparr>open_fd = 3, set_cap_universal_planes = 0, set_cap_atomic = 0, set_cap_writeback = - 22,
      get_cap_addfb2_modifiers = (- 22, 1), get_cap_cursor_width = (0, 64),
      get_cap_cursor_height = (0, 64), is_master = 1, mode_res = Some good_res,
      crtc_instance = every_id, encoder_instance = every_id,
      connector_instance = wb_connector_61, plane_res = Some [30, 31, 32],
      plane_instance = every_id\<rparr>"

definition good_probe :: probe_answers where
  "good_probe = \<lparr>probe_open_fd = 3, probe_mode_res = Some good_res\<rparr>"

text \<open>A kernel that creates dumb buffer 5 and then refuses to map it.\<close>

definition map_fails :: dumb_answers where
  "map_fails = \<lparr>create_ret = 0, create_handle = 5, create_pitch = 7680, create_size = 8294400,
                 map_ret = - 1, map_offset = 0, mmap_ok = False, munmap_ret = 0,
                 prime_ret = - 1, prime_fd = - 1\<rparr>"

section \<open>The HWC2 layer entry points\<close>

text \<open>
  \<open>HWC2::Error\<close> and \<open>HWC2::BlendMode\<close> of the Android header \<open>hwcomposer2.h\<close>, and the
  transform and dataspace constants of \<open>graphics-base\<close>, with the values those headers
  give. \<open>Error_to_int32\<close> is \<open>static_cast<int32_t>\<close> on an error.
\<close>

datatype HWC2_Error =
    Error_None | Error_BadConfig | Error_BadDisplay | Error_BadLayer | Error_BadParameter
  | Error_HasChanges | Error_NoResources | Error_NotValidated | Error_Unsupported

fun Error_to_int32 :: "HWC2_Error \<Rightarrow> int" where
  "Error_to_int32 Error_None = 0"
| "Error_to_int32 Error_BadConfig = 1"
| "Error_to_int32 Error_BadDisplay = 2"
| "Error_to_int32 Error_BadLayer = 3"
| "Error_to_int32 Error_BadParameter = 4"
| "Error_to_int32 Error_HasChanges = 5"
| "Error_to_int32 Error_NoResources = 6"
| "Error_to_int32 Error_NotValidated = 7"
| "Error_to_int32 Error_Unsupported = 8"

type_synonym int32_t = "32 word"
type_synonym hwc2_display_t = u64
type_synonym hwc2_layer_t = u64

text \<open>A \<open>float\<close> is carried by its 32-bit pattern: the entry points copy it and never
  compute with it.\<close>

type_synonym float32 = "32 word"

definition BlendMode_None :: int32_t where "BlendMode_None = 1"
definition BlendMode_Premultiplied :: int32_t where "BlendMode_Premultiplied = 2"
definition BlendMode_Coverage :: int32_t where "BlendMode_Coverage = 3"

definition HAL_TRANSFORM_FLIP_H :: int32_t where "HAL_TRANSFORM_FLIP_H = 1"
definition HAL_TRANSFORM_FLIP_V :: int32_t where "HAL_TRANSFORM_FLIP_V = 2"
definition HAL_TRANSFORM_ROT_90 :: int32_t where "HAL_TRANSFORM_ROT_90 = 4"

definition HAL_DATASPACE_STANDARD_MASK :: int32_t where
  "HAL_DATASPACE_STANDARD_MASK = push_bit 16 63"
definition HAL_DATASPACE_STANDARD_BT709 :: int32_t where
  "HAL_DATASPACE_STANDARD_BT709 = push_bit 16 1"
definition HAL_DATASPACE_STANDARD_BT601_625 :: int32_t where
  "HAL_DATASPACE_STANDARD_BT601_625 = push_bit 16 2"
definition HAL_DATASPACE_STANDARD_BT601_625_UNADJUSTED :: int32_t where
  "HAL_DATASPACE_STANDARD_BT601_625_UNADJUSTED = push_bit 16 3"
definition HAL_DATASPACE_STANDARD_BT601_525 :: int32_t where
  "HAL_DATASPACE_STANDARD_BT601_525 = push_bit 16 4"
definition HAL_DATASPACE_STANDARD_BT601_525_UNADJUSTED :: int32_t where
  "HAL_DATASPACE_STANDARD_BT601_525_UNADJUSTED = push_bit 16 5"
definition HAL_DATASPACE_STANDARD_BT2020 :: int32_t where
  "HAL_DATASPACE_STANDARD_BT2020 = push_bit 16 6"
definition HAL_DATASPACE_STANDARD_BT2020_CONSTANT_LUMINANCE :: int32_t where
  "HAL_DATASPACE_STANDARD_BT2020_CONSTANT_LUMINANCE = push_bit 16 7"
definition HAL_DATASPACE_RANGE_MASK :: int32_t where
  "HAL_DATASPACE_RANGE_MASK = push_bit 27 7"
definition HAL_DATASPACE_RANGE_FULL :: int32_t where
  "HAL_DATASPACE_RANGE_FULL = push_bit 27 1"
definition HAL_DATASPACE_RANGE_LIMITED :: int32_t where
  "HAL_DATASPACE_RANGE_LIMITED = push_bit 27 2"

definition Hwc2ToColorSpace :: "int32_t \<Rightarrow> BufferColorSpace" where
  "Hwc2ToColorSpace dataspace =
     (let standard = dataspace AND HAL_DATASPACE_STANDARD_MASK in
      if standard = HAL_DATASPACE_STANDARD_BT709 then ColorSpace_kItuRec709
      else if standard = HAL_DATASPACE_STANDARD_BT601_625
            \<or> standard = HAL_DATASPACE_STANDARD_BT601_625_UNADJUSTED
            \<or> standard = HAL_DATASPACE_STANDARD_BT601_525
            \<or> standard = HAL_DATASPACE_STANDARD_BT601_525_UNADJUSTED then ColorSpace_kItuRec601
      else if standard = HAL_DATASPACE_STANDARD_BT2020
            \<or> standard = HAL_DATASPACE_STANDARD_BT2020_CONSTANT_LUMINANCE then ColorSpace_kItuRec2020
      else ColorSpace_kUndefined)"

definition Hwc2ToSampleRange :: "int32_t \<Rightarrow> BufferSampleRange" where
  "Hwc2ToSampleRange dataspace =
     (let range = dataspace AND HAL_DATASPACE_RANGE_MASK in
      if range = HAL_DATASPACE_RANGE_FULL then SampleRange_kFullRange
      else if range = HAL_DATASPACE_RANGE_LIMITED then SampleRange_kLimitedRange
      else SampleRange_kUndefined)"

text \<open>The argument structs of the HAL and the structs of \<open>HwcLayer::LayerProperties\<close>.
  \<open>DstRectInfo\<close> and \<open>SrcRectInfo\<close> each hold one optional rectangle, the member the
  entry points set.\<close>

record hwc_rect_t =
  rect_left :: int32_t
  rect_top :: int32_t
  rect_right :: int32_t
  rect_bottom :: int32_t

record hwc_frect_t =
  frect_left :: float32
  frect_top :: float32
  frect_right :: float32
  frect_bottom :: float32

record IRect =
  i_left :: int32_t
  i_top :: int32_t
  i_right :: int32_t
  i_bottom :: int32_t

record FRect =
  f_left :: float32
  f_top :: float32
  f_right :: float32
  f_bottom :: float32

type_synonym DstRectInfo = "IRect option"
type_synonym SrcRectInfo = "FRect option"

record LayerTransform =
  hflip :: bool
  vflip :: bool
  rotate90 :: bool

record Buffer =
  buffer_handle :: u64
  acquire_fence :: SharedFd

text \<open>\<open>HwcLayer::LayerProperties\<close>: every member is a \<open>std::optional\<close>, empty in a
  default-constructed value.\<close>

record LayerProperties =
  buffer :: "Buffer option"
  blend_mode :: "BufferBlendMode option"
  color_space :: "BufferColorSpace option"
  sample_range :: "BufferSampleRange option"
  composition_type :: "int32_t option"
  display_frame :: "DstRectInfo option"
  alpha :: "float32 option"
  source_crop :: "SrcRectInfo option"
  transform :: "LayerTransform option"
  z_order :: "u32 option"

definition no_properties :: LayerProperties where
  "no_properties =
     \<lparr>buffer = None, blend_mode = None, color_space = None, sample_range = None,
      composition_type = None, display_frame = None, alpha = None, source_crop = None,
      transform = None, z_order = None\<rparr>"

text \<open>
  Modelled from the spec: \<open>HwcLayer\<close>, \<open>HwcLayer::SetLayerProperties\<close>,
  \<open>HwcDisplay::get_layer\<close> and \<open>DrmHwcTwo::GetDisplay\<close> are not among the sources. The
  spec has a layer "mutated field-by-field via property-set calls accumulated until the
  next validate pass", and the glue "translating opaque handles to typed references".
  So a layer is the properties staged on it so far, \<open>SetLayerProperties\<close> overwrites
  exactly the members that are present in its argument, and the two lookups read a
  table from handles to objects and give \<open>None\<close> (the null pointer) for a handle that is
  not in the table.
\<close>

type_synonym HwcLayer = LayerProperties

definition staged :: "'a option \<Rightarrow> 'a option \<Rightarrow> 'a option" where
  "staged new old = (case new of None \<Rightarrow> old | Some v \<Rightarrow> Some v)"

definition SetLayerProperties :: "HwcLayer \<Rightarrow> LayerProperties \<Rightarrow> HwcLayer" where
  "SetLayerProperties this layer_properties =
     \<lparr>buffer = staged (buffer layer_properties) (buffer this),
      blend_mode = staged (blend_mode layer_properties) (blend_mode this),
      color_space = staged (color_space layer_properties) (color_space this),
      sample_range = staged (sample_range layer_properties) (sample_range this),
      composition_type = staged (composition_type layer_properties) (composition_type this),
      display_frame = staged (display_frame layer_properties) (display_frame this),
      alpha = staged (alpha layer_properties) (alpha this),
      source_crop = staged (source_crop layer_properties) (source_crop this),
      transform = staged (transform layer_properties) (transform this),
      z_order = staged (z_order layer_properties) (z_order this)\<rparr>"

record HwcDisplay =
  m_layers :: "hwc2_layer_t \<rightharpoonup> HwcLayer"

record DrmHwcTwo =
  m_displays :: "hwc2_display_t \<rightharpoonup> HwcDisplay"

definition GetDisplay :: "DrmHwcTwo \<Rightarrow> hwc2_display_t \<Rightarrow> HwcDisplay option" where
  "GetDisplay ihwc display_handle = m_displays ihwc display_handle"

definition get_layer :: "HwcDisplay \<Rightarrow> hwc2_layer_t \<Rightarrow> HwcLayer option" where
  "get_layer idisplay layer = m_layers idisplay layer"

text \<open>\<open>ilayer\<close> points into the display, which \<open>idisplay\<close> points to inside the composer:
  a write through \<open>ilayer\<close> changes that one layer of that one display.\<close>

definition write_layer :: "DrmHwcTwo \<Rightarrow> hwc2_display_t \<Rightarrow> hwc2_layer_t \<Rightarrow> HwcLayer \<Rightarrow> DrmHwcTwo" where
  "write_layer ihwc display layer ilayer =
     (case m_displays ihwc display of
        None \<Rightarrow> ihwc
      | Some idisplay \<Rightarrow>
          ihwc\<lparr>m_displays :=
                 (m_displays ihwc)(display \<mapsto> idisplay\<lparr>m_layers := (m_layers idisplay)(layer \<mapsto> ilayer)\<rparr>)\<rparr>)"

text \<open>The layer a pair of handles resolves to, if any.\<close>

definition layer_of :: "DrmHwcTwo \<Rightarrow> hwc2_display_t \<Rightarrow> hwc2_layer_t \<Rightarrow> HwcLayer option" where
  "layer_of ihwc display layer =
     (case GetDisplay ihwc display of None \<Rightarrow> None | Some idisplay \<Rightarrow> get_layer idisplay layer)"

text \<open>
  The macros \<open>GET_DISPLAY\<close> and \<open>GET_LAYER\<close>: \<open>Inl\<close> is the value the macro makes the
  entry point return, \<open>Inr\<close> the pointer it binds. \<open>LOCK_COMPOSER\<close> takes the main lock
  for the duration of the call and has no other effect; an entry point is modelled as
  one step on the composer state.
\<close>

definition GET_DISPLAY :: "DrmHwcTwo \<Rightarrow> hwc2_display_t \<Rightarrow> int + HwcDisplay" where
  "GET_DISPLAY ihwc display_id =
     (case GetDisplay ihwc display_id of
        None \<Rightarrow> Inl (Error_to_int32 Error_BadDisplay)
      | Some idisplay \<Rightarrow> Inr idisplay)"

definition GET_LAYER :: "HwcDisplay \<Rightarrow> hwc2_layer_t \<Rightarrow> int + HwcLayer" where
  "GET_LAYER idisplay layer_id =
     (case get_layer idisplay layer_id of
        None \<Rightarrow> Inl (Error_to_int32 Error_BadLayer)
      | Some ilayer \<Rightarrow> Inr ilayer)"

text \<open>The nine setters. Each returns its \<open>int32_t\<close> result and the composer state.\<close>

definition SetLayerBlendMode ::
  "DrmHwcTwo \<Rightarrow> hwc2_display_t \<Rightarrow> hwc2_layer_t \<Rightarrow> int32_t \<Rightarrow> int \<times> DrmHwcTwo" where
  "SetLayerBlendMode device display layer mode =
     (case GET_DISPLAY device display of
        Inl err \<Rightarrow> (err, device)
      | Inr idisplay \<Rightarrow>
          (case GET_LAYER idisplay layer of
             Inl err \<Rightarrow> (err, device)
           | Inr ilayer \<Rightarrow>
               let mode_value =
                     (if mode = BlendMode_None then BlendMode_kNone
                      else if mode = BlendMode_Premultiplied then BlendMode_kPreMult
                      else if mode = BlendMode_Coverage then BlendMode_kCoverage
                      else BlendMode_kUndefined);
                   layer_properties = no_properties\<lparr>blend_mode := Some mode_value\<rparr>
               in (0, write_layer device display layer (SetLayerProperties ilayer layer_properties))))"

definition SetLayerBuffer ::
  "DrmHwcTwo \<Rightarrow> hwc2_display_t \<Rightarrow> hwc2_layer_t \<Rightarrow> u64 \<Rightarrow> int \<Rightarrow> int \<times> DrmHwcTwo" where
  "SetLayerBuffer device display layer buf fence =
     (case GET_DISPLAY device display of
        Inl err \<Rightarrow> (err, device)
      | Inr idisplay \<Rightarrow>
          (case GET_LAYER idisplay layer of
             Inl err \<Rightarrow> (err, device)
           | Inr ilayer \<Rightarrow>
               let layer_properties =
                     no_properties\<lparr>buffer := Some \<lparr>buffer_handle = buf, acquire_fence = MakeSharedFd fence\<rparr>\<rparr>
               in (0, write_layer device display layer (SetLayerProperties ilayer layer_properties))))"

definition SetLayerDataspace ::
  "DrmHwcTwo \<Rightarrow> hwc2_display_t \<Rightarrow> hwc2_layer_t \<Rightarrow> int32_t \<Rightarrow> int \<times> DrmHwcTwo" where
  "SetLayerDataspace device display layer dataspace =
     (case GET_DISPLAY device display of
        Inl err \<Rightarrow> (err, device)
      | Inr idisplay \<Rightarrow>
          (case GET_LAYER idisplay layer of
             Inl err \<Rightarrow> (err, device)
           | Inr ilayer \<Rightarrow>
               let layer_properties =
                     no_properties\<lparr>color_space := Some (Hwc2ToColorSpace dataspace),
                                   sample_range := Some (Hwc2ToSampleRange dataspace)\<rparr>
               in (0, write_layer device display layer (SetLayerProperties ilayer layer_properties))))"

definition SetLayerCompositionType ::
  "DrmHwcTwo \<Rightarrow> hwc2_display_t \<Rightarrow> hwc2_layer_t \<Rightarrow> int32_t \<Rightarrow> int \<times> DrmHwcTwo" where
  "SetLayerCompositionType device display layer type =
     (case GET_DISPLAY device display of
        Inl err \<Rightarrow> (err, device)
      | Inr idisplay \<Rightarrow>
          (case GET_LAYER idisplay layer of
             Inl err \<Rightarrow> (err, device)
           | Inr ilayer \<Rightarrow>
               let layer_properties = no_properties\<lparr>composition_type := Some type\<rparr>
               in (0, write_layer device display layer (SetLayerProperties ilayer layer_properties))))"

definition SetLayerDisplayFrame ::
  "DrmHwcTwo \<Rightarrow> hwc2_display_t \<Rightarrow> hwc2_layer_t \<Rightarrow> hwc_rect_t \<Rightarrow> int \<times> DrmHwcTwo" where
  "SetLayerDisplayFrame device display layer frame =
     (case GET_DISPLAY device display of
        Inl err \<Rightarrow> (err, device)
      | Inr idisplay \<Rightarrow>
          (case GET_LAYER idisplay layer of
             Inl err \<Rightarrow> (err, device)
           | Inr ilayer \<Rightarrow>
               let layer_properties =
                     no_properties\<lparr>display_frame :=
                       Some (Some \<lparr>i_left = rect_left frame, i_top = rect_top frame,
                                   i_right = rect_right frame, i_bottom = rect_bottom frame\<rparr>)\<rparr>
               in (0, write_layer device display layer (SetLayerProperties ilayer layer_properties))))"

definition SetLayerPlaneAlpha ::
  "DrmHwcTwo \<Rightarrow> hwc2_display_t \<Rightarrow> hwc2_layer_t \<Rightarrow> float32 \<Rightarrow> int \<times> DrmHwcTwo" where
  "SetLayerPlaneAlpha device display layer a =
     (case GET_DISPLAY device display of
        Inl err \<Rightarrow> (err, device)
      | Inr idisplay \<Rightarrow>
          (case GET_LAYER idisplay layer of
             Inl err \<Rightarrow> (err, device)
           | Inr ilayer \<Rightarrow>
               let layer_properties = no_properties\<lparr>alpha := Some a\<rparr>
               in (0, write_layer device display layer (SetLayerProperties ilayer layer_properties))))"

definition SetLayerSourceCrop ::
  "DrmHwcTwo \<Rightarrow> hwc2_display_t \<Rightarrow> hwc2_layer_t \<Rightarrow> hwc_frect_t \<Rightarrow> int \<times> DrmHwcTwo" where
  "SetLayerSourceCrop device display layer crop =
     (case GET_DISPLAY device display of
        Inl err \<Rightarrow> (err, device)
      | Inr idisplay \<Rightarrow>
          (case GET_LAYER idisplay layer of
             Inl err \<Rightarrow> (err, device)
           | Inr ilayer \<Rightarrow>
               let layer_properties =
                     no_properties\<lparr>source_crop :=
                       Some (Some \<lparr>f_left = frect_left crop, f_top = frect_top crop,
                                   f_right = frect_right crop, f_bottom = frect_bottom crop\<rparr>)\<rparr>
               in (0, write_layer device display layer (SetLayerProperties ilayer layer_properties))))"

definition SetLayerTransform ::
  "DrmHwcTwo \<Rightarrow> hwc2_display_t \<Rightarrow> hwc2_layer_t \<Rightarrow> int32_t \<Rightarrow> int \<times> DrmHwcTwo" where
  "SetLayerTransform device display layer t =
     (case GET_DISPLAY device display of
        Inl err \<Rightarrow> (err, device)
      | Inr idisplay \<Rightarrow>
          (case GET_LAYER idisplay layer of
             Inl err \<Rightarrow> (err, device)
           | Inr ilayer \<Rightarrow>
               let layer_properties =
                     no_properties\<lparr>transform :=
                       Some \<lparr>hflip = (t AND HAL_TRANSFORM_FLIP_H \<noteq> 0),
                             vflip = (t AND HAL_TRANSFORM_FLIP_V \<noteq> 0),
                             rotate90 = (t AND HAL_TRANSFORM_ROT_90 \<noteq> 0)\<rparr>\<rparr>
               in (0, write_layer device display layer (SetLayerProperties ilayer layer_properties))))"

definition SetLayerZOrder ::
  "DrmHwcTwo \<Rightarrow> hwc2_display_t \<Rightarrow> hwc2_layer_t \<Rightarrow> u32 \<Rightarrow> int \<times> DrmHwcTwo" where
  "SetLayerZOrder device display layer z =
     (case GET_DISPLAY device display of
        Inl err \<Rightarrow> (err, device)
      | Inr idisplay \<Rightarrow>
          (case GET_LAYER idisplay layer of
             Inl err \<Rightarrow> (err, device)
           | Inr ilayer \<Rightarrow>
               let layer_properties = no_properties\<lparr>z_order := Some z\<rparr>
               in (0, write_layer device display layer (SetLayerProperties ilayer layer_properties))))"

text \<open>A composer with one display, handle 0, that has one layer, handle 1, on which a
  z-order of 4 is staged.\<close>

definition one_layer :: DrmHwcTwo where
  "one_layer =
     \<lparr>m_displays = [0 \<mapsto> \<lparr>m_layers = [1 \<mapsto> no_properties\<lparr>z_order := Some 4\<rparr>]\<rparr>]\<rparr>"

text \<open>A display frame and a source crop, the crop as the bit patterns of 0, 0, 1920.0
  and 1080.0.\<close>

definition some_frame :: hwc_rect_t where
  "some_frame = \<lparr>rect_left = 0, rect_top = 0, rect_right = 1920, rect_bottom = 1080\<rparr>"

definition some_crop :: hwc_frect_t where
  "some_crop = \<lparr>frect_left = 0, frect_top = 0, frect_right = 0x44F00000, frect_bottom = 0x44870000\<rparr>"

section \<open>The composition planner\<close>

text \<open>
  Modelled from the spec: the composition planner (\<open>Plan\<close>), the planes of the resource
  registry and the planner's view of a layer are not among the sources; the definitions
  of this section follow sections 3, 4.1 and 4.2 of the specification. A plane has a
  stable identifier, a type, the CRTCs it can be routed to, the (format, modifier) pairs
  it supports and the flag "currently bound to a layer this frame", which "resets every
  planning pass". Section 4.2 also speaks of a plane's declared maximum cursor size, of
  rotation support and of the client-composition plane; they are fields too.
\<close>

datatype PlaneType = Primary | Overlay | Cursor

record HardwarePlane =
  hp_id :: u32
  hp_type :: PlaneType
  hp_crtcs :: "u32 list"
  hp_formats :: "(u32 \<times> u64) list"
  hp_rotation :: bool
  hp_max_cursor :: "nat \<times> nat"
  hp_client_target :: bool
  hp_assigned :: bool

datatype Composition = Comp_Invalid | Comp_Client | Comp_Device | Comp_SolidColor | Comp_Cursor

text \<open>What the planner reads of a layer: its id (ids ascend in creation order), z-order,
  composition-type hint, the format and modifier of its buffer, whether its transform
  asks for a rotation by 90 degrees, and its destination frame (left, top, right,
  bottom).\<close>

record PlanLayer =
  pl_id :: nat
  pl_z :: nat
  pl_hint :: Composition
  pl_format :: u32
  pl_modifier :: u64
  pl_rotate90 :: bool
  pl_frame :: "int \<times> int \<times> int \<times> int"

text \<open>The plan: for each layer, in planning order, the plane bound to it or \<open>None\<close> for
  client composition; and the layers whose final composition type differs from the
  hint, in ascending layer-id order.\<close>

record CompositionPlan =
  assignment :: "(nat \<times> u32 option) list"
  changed_types :: "(nat \<times> Composition) list"

definition reset_assigned :: "HardwarePlane list \<Rightarrow> HardwarePlane list" where
  "reset_assigned planes = map (\<lambda>p. p\<lparr>hp_assigned := False\<rparr>) planes"

definition mark_assigned :: "u32 \<Rightarrow> HardwarePlane list \<Rightarrow> HardwarePlane list" where
  "mark_assigned pid planes = map (\<lambda>p. if hp_id p = pid then p\<lparr>hp_assigned := True\<rparr> else p) planes"

text \<open>Step 1: layers by descending z-order, ties broken by creation order, the layer
  created first coming first.\<close>

definition precedes :: "PlanLayer \<Rightarrow> PlanLayer \<Rightarrow> bool" where
  "precedes a b = (pl_z a > pl_z b \<or> (pl_z a = pl_z b \<and> pl_id a \<le> pl_id b))"

fun insert_layer :: "PlanLayer \<Rightarrow> PlanLayer list \<Rightarrow> PlanLayer list" where
  "insert_layer l [] = [l]"
| "insert_layer l (x # xs) = (if precedes l x then l # x # xs else x # insert_layer l xs)"

definition sort_layers :: "PlanLayer list \<Rightarrow> PlanLayer list" where
  "sort_layers ls = foldr insert_layer ls []"

text \<open>\<open>PlaneSupportsFormat\<close> of section 4.1, and the capability check of step 3: format,
  modifier, and no rotation by 90 degrees on a plane that cannot rotate.\<close>

definition PlaneSupportsFormat :: "HardwarePlane \<Rightarrow> u32 \<Rightarrow> u64 \<Rightarrow> bool" where
  "PlaneSupportsFormat plane format modifier = ((format, modifier) \<in> set (hp_formats plane))"

definition covers :: "HardwarePlane \<Rightarrow> PlanLayer \<Rightarrow> bool" where
  "covers p l =
     (PlaneSupportsFormat p (pl_format l) (pl_modifier l) \<and>
      (if pl_rotate90 l then hp_rotation p else True))"

definition frame_width :: "PlanLayer \<Rightarrow> int" where
  "frame_width l = (case pl_frame l of (x0, y0, x1, y1) \<Rightarrow> x1 - x0)"

definition frame_height :: "PlanLayer \<Rightarrow> int" where
  "frame_height l = (case pl_frame l of (x0, y0, x1, y1) \<Rightarrow> y1 - y0)"

text \<open>The edge case of section 4.2: a destination frame that lies fully outside the
  display bounds (width, height).\<close>

definition outside_display :: "int \<times> int \<Rightarrow> PlanLayer \<Rightarrow> bool" where
  "outside_display bounds l =
     (case pl_frame l of (x0, y0, x1, y1) \<Rightarrow>
        x1 \<le> 0 \<or> y1 \<le> 0 \<or> fst bounds \<le> x0 \<or> snd bounds \<le> y0)"

text \<open>Step 2: the cursor plane, if there is one, is reserved for a single layer that is
  hinted "cursor" and no larger than the plane's maximum cursor size: the first such
  layer in planning order. A layer that lies fully outside the display is "excluded
  from plane consideration", so it is passed over here too.\<close>

definition fits_cursor :: "HardwarePlane \<Rightarrow> PlanLayer \<Rightarrow> bool" where
  "fits_cursor p l =
     (frame_width l \<le> int (fst (hp_max_cursor p)) \<and> frame_height l \<le> int (snd (hp_max_cursor p)))"

fun cursor_plane :: "HardwarePlane list \<Rightarrow> HardwarePlane option" where
  "cursor_plane [] = None"
| "cursor_plane (p # ps) = (if hp_type p = Cursor then Some p else cursor_plane ps)"

fun cursor_layer :: "int \<times> int \<Rightarrow> HardwarePlane \<Rightarrow> PlanLayer list \<Rightarrow> PlanLayer option" where
  "cursor_layer bounds p [] = None"
| "cursor_layer bounds p (l # ls) =
     (if pl_hint l = Comp_Cursor \<and> fits_cursor p l \<and> \<not> outside_display bounds l then Some l
      else cursor_layer bounds p ls)"

definition reserve_cursor ::
  "int \<times> int \<Rightarrow> PlanLayer list \<Rightarrow> HardwarePlane list
     \<Rightarrow> (nat \<times> u32) option \<times> HardwarePlane list" where
  "reserve_cursor bounds ls planes =
     (case cursor_plane planes of
        None \<Rightarrow> (None, planes)
      | Some p \<Rightarrow>
          (case cursor_layer bounds p ls of
             None \<Rightarrow> (None, planes)
           | Some l \<Rightarrow> (Some (pl_id l, hp_id p), mark_assigned (hp_id p) planes)))"

text \<open>Step 3: a plane can take a layer when it is unassigned, is neither the cursor plane
  nor the client-composition plane, and covers the layer. The specification leaves
  "next-best" to the device profile; here it is the last such plane in registry order,
  so that the topmost layer takes the topmost overlay and the primary plane is left
  for the bottom layer, as in the scenarios of section 8.\<close>

definition bindable :: "HardwarePlane \<Rightarrow> PlanLayer \<Rightarrow> bool" where
  "bindable p l =
     (\<not> hp_assigned p \<and> hp_type p \<noteq> Cursor \<and> \<not> hp_client_target p \<and> covers p l)"

fun next_best :: "PlanLayer \<Rightarrow> HardwarePlane list \<Rightarrow> HardwarePlane option" where
  "next_best l [] = None"
| "next_best l (p # ps) =
     (case next_best l ps of
        Some q \<Rightarrow> Some q
      | None \<Rightarrow> if bindable p l then Some p else None)"

text \<open>Steps 3 to 5 and the edge case, over the layers in planning order. The layer the
  cursor plane was reserved for keeps it. A layer outside the display, and a layer for
  which hardware composition would regress visual correctness (step 5; which layers
  these are is the device's rule \<open>regresses\<close>), goes to client composition. Any other
  layer is bound to the next-best plane, which is then marked assigned, or goes to
  client composition when no plane can take it.\<close>

fun bind_layers ::
  "(PlanLayer \<Rightarrow> bool) \<Rightarrow> int \<times> int \<Rightarrow> (nat \<times> u32) option \<Rightarrow> PlanLayer list \<Rightarrow> HardwarePlane list
     \<Rightarrow> (nat \<times> u32 option) list \<times> HardwarePlane list" where
  "bind_layers regresses bounds cur [] planes = ([], planes)"
| "bind_layers regresses bounds cur (l # ls) planes =
     (if (case cur of None \<Rightarrow> False | Some (lid, pid) \<Rightarrow> lid = pl_id l)
      then (case bind_layers regresses bounds cur ls planes of
              (rest, planes') \<Rightarrow> ((pl_id l, map_option snd cur) # rest, planes'))
      else if outside_display bounds l \<or> regresses l
      then (case bind_layers regresses bounds cur ls planes of
              (rest, planes') \<Rightarrow> ((pl_id l, None) # rest, planes'))
      else (case next_best l planes of
              None \<Rightarrow>
                (case bind_layers regresses bounds cur ls planes of
                   (rest, planes') \<Rightarrow> ((pl_id l, None) # rest, planes'))
            | Some p \<Rightarrow>
                (case bind_layers regresses bounds cur ls (mark_assigned (hp_id p) planes) of
                   (rest, planes') \<Rightarrow> ((pl_id l, Some (hp_id p)) # rest, planes'))))"

text \<open>The final composition type of a layer, and the changed-composition-types list:
  only layers whose final type differs from the hint, in ascending layer-id order.\<close>

definition final_type :: "(nat \<times> u32) option \<Rightarrow> u32 option \<Rightarrow> Composition" where
  "final_type cur bound =
     (case bound of
        None \<Rightarrow> Comp_Client
      | Some pid \<Rightarrow> if map_option snd cur = Some pid then Comp_Cursor else Comp_Device)"

fun insert_by_id :: "nat \<times> Composition \<Rightarrow> (nat \<times> Composition) list \<Rightarrow> (nat \<times> Composition) list" where
  "insert_by_id c [] = [c]"
| "insert_by_id c (x # xs) = (if fst c \<le> fst x then c # x # xs else x # insert_by_id c xs)"

fun changed ::
  "(nat \<times> u32) option \<Rightarrow> PlanLayer list \<Rightarrow> (nat \<times> u32 option) list \<Rightarrow> (nat \<times> Composition) list" where
  "changed cur [] bs = []"
| "changed cur (l # ls) [] = []"
| "changed cur (l # ls) (b # bs) =
     (if final_type cur (snd b) \<noteq> pl_hint l
      then insert_by_id (pl_id l, final_type cur (snd b)) (changed cur ls bs)
      else changed cur ls bs)"

text \<open>
  \<open>Plan\<close>: one planning pass. It starts by resetting the "currently assigned" flag of
  every plane and returns the plan together with the planes as the pass leaves them,
  flags included: these are the planes the next call finds in the registry.
\<close>

definition Plan ::
  "(PlanLayer \<Rightarrow> bool) \<Rightarrow> int \<times> int \<Rightarrow> PlanLayer list \<Rightarrow> HardwarePlane list
     \<Rightarrow> CompositionPlan \<times> HardwarePlane list" where
  "Plan regresses bounds orderedLayers availablePlanes =
     (let planes = reset_assigned availablePlanes;
          sorted_layers = sort_layers orderedLayers;
          (cur, planes) = reserve_cursor bounds sorted_layers planes;
          (bindings, planes) = bind_layers regresses bounds cur sorted_layers planes
      in (\<lparr>assignment = bindings, changed_types = changed cur sorted_layers bindings\<rparr>, planes))"

text \<open>The first scenario of section 8 of the specification: a primary plane and two
  overlays, three opaque layers at z-orders 0, 1 and 2, every format supported.\<close>

definition xrgb :: "(u32 \<times> u64) list" where
  "xrgb = [(DRM_FORMAT_XRGB8888, DRM_FORMAT_MOD_NONE)]"

definition three_planes :: "HardwarePlane list" where
  "three_planes =
     [\<lparr>hp_id = 31, hp_type = Primary, hp_crtcs = [40], hp_formats = xrgb, hp_rotation = False,
       hp_max_cursor = (0, 0), hp_client_target = False, hp_assigned = False\<rparr>,
      \<lparr>hp_id = 32, hp_type = Overlay, hp_crtcs = [40], hp_formats = xrgb, hp_rotation = False,
       hp_max_cursor = (0, 0), hp_client_target = False, hp_assigned = False\<rparr>,
      \<lparr>hp_id = 33, hp_type = Overlay, hp_crtcs = [40], hp_formats = xrgb, hp_rotation = False,
       hp_max_cursor = (0, 0), hp_client_target = False, hp_assigned = False\<rparr>]"

definition opaque_layer :: "nat \<Rightarrow> nat \<Rightarrow> PlanLayer" where
  "opaque_layer i z =
     \<lparr>pl_id = i, pl_z = z, pl_hint = Comp_Device, pl_format = DRM_FORMAT_XRGB8888,
      pl_modifier = DRM_FORMAT_MOD_NONE, pl_rotate90 = False, pl_frame = (0, 0, 1920, 1080)\<rparr>"

definition three_layers :: "PlanLayer list" where
  "three_layers = [opaque_layer 1 0, opaque_layer 2 1, opaque_layer 3 2]"

definition no_regress :: "PlanLayer \<Rightarrow> bool" where
  "no_regress l = False"

section \<open>DrmProperty: what \<open>value\<close> and \<open>AtomicSet\<close> return\<close>

text \<open>
  Claim C8. \<open>DrmProperty::value\<close> never reads \<open>enums_\<close> out of bounds: for every property
  the result is a returned tuple (\<open>Inr\<close>), never a fault. The tuple is \<open>(0, value_)\<close> for a
  blob property; \<open>(-ENOENT, 0)\<close> for any other property whose value list is empty;
  after that, for an enum property, \<open>(-ENOENT, 0)\<close> when the raw value is not below
  the number of enum entries and \<open>(0, enums_[value_].value_)\<close> when it is; \<open>(-EINVAL, 0)\<close>
  for a bitmask property and for a property of unrecognised type; and \<open>(0, value_)\<close> for
  the two remaining types, integer and object.
\<close>

theorem DrmProperty_value_cases:
  "DrmProperty_value p =
     Inr (if m_type p = DRM_PROPERTY_TYPE_BLOB then (0, m_value p)
          else if m_values p = [] then (- ENOENT, 0)
          else if m_type p = DRM_PROPERTY_TYPE_ENUM then
            (if length (m_enums p) \<le> unat (m_value p) then (- ENOENT, 0)
             else (0, e_value (m_enums p ! unat (m_value p))))
          else if m_type p = DRM_PROPERTY_TYPE_BITMASK \<or> m_type p = DRM_PROPERTY_TYPE_INVALID
            then (- EINVAL, 0)
          else (0, m_value p))"
  by (cases "m_type p") (simp_all add: DrmProperty_value_def vector_at_def)

text \<open>
  Claim C9. \<open>DrmProperty::AtomicSet\<close> on a property whose id is 0 returns false and
  leaves the request as it was. On a property with a nonzero id it returns true exactly
  when \<open>drmModeAtomicAddProperty\<close> did not return a negative result, and the request is
  as that call left it. With libdrm's \<open>drmModeAtomicAddProperty\<close>, true means that the
  triple (object id, property id, value) is now the last item of the request, and false
  means that the request is unchanged.
\<close>

theorem AtomicSet_result:
  "(m_id p = 0 \<longrightarrow> AtomicSet add p pset v = (False, pset)) \<and>
   (m_id p \<noteq> 0 \<longrightarrow>
      AtomicSet add p pset v =
        (0 \<le> fst (add pset (m_obj_id p) (m_id p) v), snd (add pset (m_obj_id p) (m_id p) v))) \<and>
   (m_id p \<noteq> 0 \<longrightarrow>
      (fst (AtomicSet (drmModeAtomicAddProperty ok) p pset v) \<longleftrightarrow>
         snd (AtomicSet (drmModeAtomicAddProperty ok) p pset v) = pset @ [(m_obj_id p, m_id p, v)]) \<and>
      (\<not> fst (AtomicSet (drmModeAtomicAddProperty ok) p pset v) \<longleftrightarrow>
         snd (AtomicSet (drmModeAtomicAddProperty ok) p pset v) = pset))"
  by (auto simp: AtomicSet_def drmModeAtomicAddProperty_def EINVAL_def ENOMEM_def split: prod.splits)

text \<open>At concrete inputs: an uninitialised property, an initialised one whose triple is
  appended, and an initialised one for which the append fails.\<close>

theorem AtomicSet_result_witness:
  "AtomicSet (drmModeAtomicAddProperty True) default_DrmProperty [(1, 2, 3)] 7 = (False, [(1, 2, 3)]) \<and>
   AtomicSet (drmModeAtomicAddProperty True) (default_DrmProperty\<lparr>m_obj_id := 31, m_id := 5\<rparr>) [(1, 2, 3)] 7
     = (True, [(1, 2, 3), (31, 5, 7)]) \<and>
   AtomicSet (drmModeAtomicAddProperty False) (default_DrmProperty\<lparr>m_obj_id := 31, m_id := 5\<rparr>) [(1, 2, 3)] 7
     = (False, [(1, 2, 3)])"
  using AtomicSet_result [of default_DrmProperty "drmModeAtomicAddProperty True" "[(1, 2, 3)]" 7 True]
    AtomicSet_result [of "default_DrmProperty\<lparr>m_obj_id := 31, m_id := 5\<rparr>"
      "drmModeAtomicAddProperty True" "[(1, 2, 3)]" 7 True]
    AtomicSet_result [of "default_DrmProperty\<lparr>m_obj_id := 31, m_id := 5\<rparr>"
      "drmModeAtomicAddProperty False" "[(1, 2, 3)]" 7 False]
  by (simp add: default_DrmProperty_def drmModeAtomicAddProperty_def EINVAL_def ENOMEM_def)

section \<open>DrmDevice: initialisation\<close>

lemma Init_ret_writeback:
  "fst (Init wb (k\<lparr>set_cap_writeback := r\<rparr>) dev) = fst (Init wb k dev)"
  by (simp add: Init_def Let_def split: option.splits)

lemma Init_ret_modifiers:
  "fst (Init wb (k\<lparr>get_cap_addfb2_modifiers := g\<rparr>) dev) = fst (Init wb k dev)"
  by (simp add: Init_def Let_def split: option.splits)

lemma Init_nonzero:
  "set_cap_universal_planes k \<noteq> 0 \<or> set_cap_atomic k \<noteq> 0 \<Longrightarrow> fst (Init wb k dev) \<noteq> 0"
  by (auto simp: Init_def Let_def ENODEV_def split: option.splits)

lemma Init_modifiers_absent:
  "0 \<le> open_fd k \<Longrightarrow> set_cap_universal_planes k = 0 \<Longrightarrow> set_cap_atomic k = 0 \<Longrightarrow>
   fst (get_cap_addfb2_modifiers k) \<noteq> 0 \<Longrightarrow>
   \<not> m_HasAddFb2ModifiersSupport (fst (snd (Init wb k dev)))"
  by (simp add: Init_def Let_def MakeSharedFd_def drmGetCap_def split: option.splits)

lemma lenient_Init:
  "Init True lenient_answers new_DrmDevice =
    (0, \<lparr>m_fd = Some 3, m_HasAddFb2ModifiersSupport = False, m_cap_cursor_size = Some (64, 64),
      m_min_resolution = (0, 0), m_max_resolution = (4096, 4096), m_crtcs = [(40, 0), (41, 1)],
      m_encoders = [(50, 0)],
      m_connectors = [(60, 0)], m_writeback_connectors = [(61, 1)], m_planes = [30, 31, 32]\<rparr>,
     [ALOGI ''Failed to set writeback cap'', ALOGW ''drmGetCap failed. Fallback to no modifier support.''])"
  by (simp add: Init_def lenient_answers_def new_DrmDevice_def good_res_def MakeSharedFd_def
      drmGetCap_def every_id_def wb_connector_61_def Let_def)

text \<open>
  Claim C2. \<open>DrmDevice::Init\<close> returns a nonzero value, and \<open>CreateInstance\<close> returns no
  device, when enabling the universal-planes capability or the atomic capability fails;
  once the node is open the value returned is the one \<open>drmSetClientCap\<close> gave. The
  value \<open>Init\<close> returns does not depend on the result of enabling the writeback
  capability, nor on the answer to the modifiers query. When the modifiers query fails
  and \<open>Init\<close> gets that far, modifier support is recorded as absent.
\<close>

theorem Init_capability_failures:
  "(set_cap_universal_planes k \<noteq> 0 \<or> set_cap_atomic k \<noteq> 0 \<longrightarrow>
      fst (Init wb k dev) \<noteq> 0 \<and> CreateInstance wb kp k = None) \<and>
   (0 \<le> open_fd k \<and> set_cap_universal_planes k \<noteq> 0 \<longrightarrow>
      fst (Init wb k dev) = set_cap_universal_planes k) \<and>
   (0 \<le> open_fd k \<and> set_cap_universal_planes k = 0 \<and> set_cap_atomic k \<noteq> 0 \<longrightarrow>
      fst (Init wb k dev) = set_cap_atomic k) \<and>
   fst (Init wb (k\<lparr>set_cap_writeback := r\<rparr>) dev) = fst (Init wb k dev) \<and>
   fst (Init wb (k\<lparr>get_cap_addfb2_modifiers := g\<rparr>) dev) = fst (Init wb k dev) \<and>
   (0 \<le> open_fd k \<and> set_cap_universal_planes k = 0 \<and> set_cap_atomic k = 0 \<and>
    fst (get_cap_addfb2_modifiers k) \<noteq> 0 \<longrightarrow>
      \<not> m_HasAddFb2ModifiersSupport (fst (snd (Init wb k dev))))"
proof -
  have "CreateInstance wb kp k = None" if "fst (Init wb k new_DrmDevice) \<noteq> 0"
    using that by (auto simp: CreateInstance_def split: prod.splits)
  moreover have "fst (Init wb k dev) = set_cap_universal_planes k"
    if "0 \<le> open_fd k" "set_cap_universal_planes k \<noteq> 0"
    using that by (simp add: Init_def Let_def MakeSharedFd_def)
  moreover have "fst (Init wb k dev) = set_cap_atomic k"
    if "0 \<le> open_fd k" "set_cap_universal_planes k = 0" "set_cap_atomic k \<noteq> 0"
    using that by (simp add: Init_def Let_def MakeSharedFd_def)
  ultimately show ?thesis
    using Init_nonzero [of k wb dev] Init_nonzero [of k wb new_DrmDevice]
      Init_ret_writeback [where wb = wb and k = k and r = r and dev = dev]
      Init_ret_modifiers [where wb = wb and k = k and g = g and dev = dev]
      Init_modifiers_absent [of k wb dev]
    by blast
qed

text \<open>On the device \<open>lenient_answers\<close>, where writeback and the modifiers query fail,
  \<open>Init\<close> returns 0 with modifier support absent; a failing universal-planes or atomic
  capability is returned as it is and no device is created.\<close>

theorem Init_capability_failures_witness:
  "fst (Init True lenient_answers new_DrmDevice) = 0 \<and>
   \<not> m_HasAddFb2ModifiersSupport (fst (snd (Init True lenient_answers new_DrmDevice))) \<and>
   fst (Init True (lenient_answers\<lparr>set_cap_universal_planes := - 22\<rparr>) new_DrmDevice) = - 22 \<and>
   CreateInstance True good_probe (lenient_answers\<lparr>set_cap_universal_planes := - 22\<rparr>) = None \<and>
   fst (Init True (lenient_answers\<lparr>set_cap_atomic := - 95\<rparr>) new_DrmDevice) = - 95 \<and>
   CreateInstance True good_probe (lenient_answers\<lparr>set_cap_atomic := - 95\<rparr>) = None \<and>
   fst (Init True (lenient_answers\<lparr>set_cap_writeback := 0\<rparr>) new_DrmDevice) = 0 \<and>
   fst (Init True (lenient_answers\<lparr>get_cap_addfb2_modifiers := (0, 1)\<rparr>) new_DrmDevice) = 0"
proof -
  have ok: "0 \<le> open_fd lenient_answers" "set_cap_universal_planes lenient_answers = 0"
    "set_cap_atomic lenient_answers = 0" "fst (get_cap_addfb2_modifiers lenient_answers) \<noteq> 0"
    by (simp_all add: lenient_answers_def)
  have ret: "fst (Init True lenient_answers new_DrmDevice) = 0"
    by (simp add: lenient_Init)
  show ?thesis
    using ok ret
      Init_capability_failures [of lenient_answers True new_DrmDevice good_probe 0 "(0, 1)"]
      Init_capability_failures [of "lenient_answers\<lparr>set_cap_universal_planes := - 22\<rparr>" True
        new_DrmDevice good_probe 0 "(0, 1)"]
      Init_capability_failures [of "lenient_answers\<lparr>set_cap_atomic := - 95\<rparr>" True
        new_DrmDevice good_probe 0 "(0, 1)"]
    by simp
qed

text \<open>
  Claim C10. \<open>DrmDevice::CreateInstance\<close> returns a device exactly when \<open>IsKMSDev\<close> holds
  and \<open>Init\<close> returns 0, and then it is the device \<open>Init\<close> filled in; otherwise the
  pointer is empty. \<open>IsKMSDev\<close> holds exactly when the node opens, its mode resources
  are fetched, and the counts of CRTCs, connectors and encoders are all above zero.
\<close>

theorem CreateInstance_IsKMSDev:
  "CreateInstance wb kp ki =
     (if IsKMSDev kp \<and> fst (Init wb ki new_DrmDevice) = 0
      then Some (fst (snd (Init wb ki new_DrmDevice))) else None) \<and>
   (IsKMSDev kp \<longleftrightarrow>
      0 \<le> probe_open_fd kp \<and>
      (\<exists>res. probe_mode_res kp = Some res \<and>
             count_crtcs res > 0 \<and> count_connectors res > 0 \<and> count_encoders res > 0))"
  by (auto simp: CreateInstance_def IsKMSDev_def MakeUniqueFd_def split: prod.splits option.splits)

text \<open>On the device \<open>lenient_answers\<close> behind a node that passes the probe, a device is
  created; behind a node that reports no encoder, none is.\<close>

theorem CreateInstance_IsKMSDev_witness:
  "IsKMSDev good_probe \<and>
   CreateInstance True good_probe lenient_answers =
     Some (fst (snd (Init True lenient_answers new_DrmDevice))) \<and>
   \<not> IsKMSDev (good_probe\<lparr>probe_mode_res := Some (good_res\<lparr>encoders := []\<rparr>)\<rparr>) \<and>
   CreateInstance True (good_probe\<lparr>probe_mode_res := Some (good_res\<lparr>encoders := []\<rparr>)\<rparr>)
     lenient_answers = None \<and>
   \<not> IsKMSDev (good_probe\<lparr>probe_open_fd := - 1\<rparr>)"
proof -
  have ret: "fst (Init True lenient_answers new_DrmDevice) = 0"
    by (simp add: lenient_Init)
  have counts: "count_crtcs good_res = 2" "count_connectors good_res = 2" "count_encoders good_res = 1"
    "count_encoders (good_res\<lparr>encoders := []\<rparr>) = 0"
    by (simp_all add: good_res_def count_crtcs_def count_connectors_def count_encoders_def)
  show ?thesis
    using ret counts
      CreateInstance_IsKMSDev [of True good_probe lenient_answers]
      CreateInstance_IsKMSDev [of True "good_probe\<lparr>probe_mode_res := Some (good_res\<lparr>encoders := []\<rparr>)\<rparr>"
        lenient_answers]
      CreateInstance_IsKMSDev [of True "good_probe\<lparr>probe_open_fd := - 1\<rparr>" lenient_answers]
    by (simp add: good_probe_def)
qed

section \<open>DrmDevice: reading a property\<close>

lemma GetProperty_loop_found:
  "all_resolve k props \<Longrightarrow> has_property_named k props nm \<Longrightarrow>
   \<exists>pid pv p. (pid, pv) \<in> set props \<and> property_res k pid = Some p \<and> p_name p = nm \<and>
      GetProperty_loop k obj_id nm property props = Inr (True, DrmProperty_Init property obj_id p pv)"
proof (induction props)
  case Nil
  then show ?case by (simp add: has_property_named_def)
next
  case (Cons a props)
  obtain pid pv where a: "a = (pid, pv)" by (cases a)
  from Cons.prems(1) a obtain p where p: "property_res k pid = Some p"
    by (auto simp: all_resolve_def)
  show ?case
  proof (cases "p_name p = nm")
    case True
    with a p show ?thesis by auto
  next
    case False
    with Cons.prems a p have "all_resolve k props" "has_property_named k props nm"
      by (auto simp: all_resolve_def has_property_named_def)
    from Cons.IH [OF this] a p False show ?thesis by auto
  qed
qed

lemma GetProperty_loop_not_found:
  "all_resolve k props \<Longrightarrow> \<not> has_property_named k props nm \<Longrightarrow>
   GetProperty_loop k obj_id nm property props = Inr (False, property)"
proof (induction props)
  case Nil
  then show ?case by simp
next
  case (Cons a props)
  then show ?case
    by (cases a) (auto simp: all_resolve_def has_property_named_def split: option.splits)
qed

text \<open>
  Claim C3, as amended. \<open>DrmDevice::GetProperty\<close> returns \<open>-ENODEV\<close>, with the property
  untouched, when the object's properties cannot be fetched. When they can, and every
  property id of the object resolves, it returns 0 with the property initialised from a
  property of that name if one exists on the object, and \<open>-ENOENT\<close> with the property
  untouched if none does.
\<close>

theorem GetProperty_result:
  "(object_properties k obj_id obj_type = None \<longrightarrow>
      GetProperty k obj_id obj_type nm property = Inr (- ENODEV, property)) \<and>
   (\<forall>props. object_properties k obj_id obj_type = Some props \<and> all_resolve k props \<longrightarrow>
      (if has_property_named k props nm
       then \<exists>pid pv p. (pid, pv) \<in> set props \<and> property_res k pid = Some p \<and> p_name p = nm \<and>
              GetProperty k obj_id obj_type nm property = Inr (0, DrmProperty_Init property obj_id p pv)
       else GetProperty k obj_id obj_type nm property = Inr (- ENOENT, property)))"
proof (intro conjI allI impI)
  assume "object_properties k obj_id obj_type = None"
  then show "GetProperty k obj_id obj_type nm property = Inr (- ENODEV, property)"
    by (simp add: GetProperty_def)
next
  fix props
  assume a: "object_properties k obj_id obj_type = Some props \<and> all_resolve k props"
  show "if has_property_named k props nm
       then \<exists>pid pv p. (pid, pv) \<in> set props \<and> property_res k pid = Some p \<and> p_name p = nm \<and>
              GetProperty k obj_id obj_type nm property = Inr (0, DrmProperty_Init property obj_id p pv)
       else GetProperty k obj_id obj_type nm property = Inr (- ENOENT, property)"
  proof (cases "has_property_named k props nm")
    case True
    from GetProperty_loop_found [OF conjunct2 [OF a] True, of obj_id property]
    obtain pid pv p where
      "(pid, pv) \<in> set props" "property_res k pid = Some p" "p_name p = nm"
      "GetProperty_loop k obj_id nm property props = Inr (True, DrmProperty_Init property obj_id p pv)"
      by blast
    moreover from this a
    have "GetProperty k obj_id obj_type nm property = Inr (0, DrmProperty_Init property obj_id p pv)"
      by (simp add: GetProperty_def)
    ultimately show ?thesis using True by auto
  next
    case False
    from GetProperty_loop_not_found [OF conjunct2 [OF a] False, of obj_id property] a False
    show ?thesis by (simp add: GetProperty_def)
  qed
qed

text \<open>The claim as stated fails: for an object the kernel does not know, no property of
  the name exists, yet the result is \<open>-ENODEV\<close>, which is neither 0 nor \<open>-ENOENT\<close>.\<close>

theorem GetProperty_ENODEV_counterexample:
  "GetProperty no_object 31 0xeeeeeeee ''type'' default_DrmProperty = Inr (- ENODEV, default_DrmProperty) \<and>
   - ENODEV \<noteq> (0::int) \<and> - ENODEV \<noteq> - ENOENT"
  by (simp add: GetProperty_def no_object_def ENODEV_def ENOENT_def)

theorem GetProperty_result_witness:
  "GetProperty plane_props 30 0xeeeeeeee ''zpos'' default_DrmProperty = Inr (- ENODEV, default_DrmProperty) \<and>
   GetProperty plane_props 31 0xeeeeeeee ''alpha'' default_DrmProperty = Inr (- ENOENT, default_DrmProperty) \<and>
   (\<exists>p'. GetProperty plane_props 31 0xeeeeeeee ''zpos'' default_DrmProperty = Inr (0, p'))"
proof -
  have none: "object_properties plane_props 30 0xeeeeeeee = None"
    by (simp add: plane_props_def)
  have some: "object_properties plane_props 31 0xeeeeeeee = Some [(7, 1), (8, 0)] \<and>
              all_resolve plane_props [(7, 1), (8, 0)]"
    by (simp add: plane_props_def all_resolve_def)
  have alpha: "\<not> has_property_named plane_props [(7, 1), (8, 0)] ''alpha''"
    by (simp add: plane_props_def has_property_named_def)
  have zpos: "has_property_named plane_props [(7, 1), (8, 0)] ''zpos''"
    by (simp add: plane_props_def has_property_named_def)
  have "GetProperty plane_props 30 0xeeeeeeee ''zpos'' default_DrmProperty = Inr (- ENODEV, default_DrmProperty)"
    using GetProperty_result [of plane_props 30 "0xeeeeeeee" "''zpos''" default_DrmProperty] none
    by blast
  moreover
  have "GetProperty plane_props 31 0xeeeeeeee ''alpha'' default_DrmProperty = Inr (- ENOENT, default_DrmProperty)"
    using GetProperty_result [of plane_props 31 "0xeeeeeeee" "''alpha''" default_DrmProperty] some alpha
    by (metis (full_types))
  moreover
  have "\<exists>p'. GetProperty plane_props 31 0xeeeeeeee ''zpos'' default_DrmProperty = Inr (0, p')"
    using GetProperty_result [of plane_props 31 "0xeeeeeeee" "''zpos''" default_DrmProperty] some zpos
    by (metis (full_types))
  ultimately show ?thesis by blast
qed

section \<open>DrmDevice: kernel resources are released\<close>

lemma done_label_nonzero: "handle \<noteq> 0 \<Longrightarrow> done_label handle = [MODE_DESTROY_DUMB handle]"
  by (simp add: done_label_def word_greater_zero_iff)

lemma CreateBufferForModeset_calls:
  assumes "create_ret k = 0" and "create_handle k \<noteq> 0"
  shows "snd (CreateBufferForModeset k w h) =
           [MODE_CREATE_DUMB h w 32, MODE_MAP_DUMB (create_handle k)] @
           (if map_ret k \<noteq> 0 then []
            else MMAP (create_size k) (map_offset k) #
                 (if mmap_ok k then [MUNMAP (create_size k), PRIME_HANDLE_TO_FD (create_handle k)]
                  else [])) @
           [MODE_DESTROY_DUMB (create_handle k)]"
  using assms by (simp add: CreateBufferForModeset_def Let_def done_label_nonzero)

lemma CreateBufferForModeset_result:
  assumes "create_ret k = 0"
  shows "fst (CreateBufferForModeset k w h) =
           (if map_ret k = 0 \<and> mmap_ok k \<and> prime_ret k = 0
            then Some \<lparr>bi_width = w, bi_height = h, bi_format = DRM_FORMAT_XRGB8888,
                        bi_pitches = [create_pitch k, 0, 0, 0],
                        bi_prime_fds = [prime_fd k, - 1, - 1, - 1],
                        bi_modifiers = [DRM_FORMAT_MOD_NONE, 0, 0, 0],
                        bi_color_space = ColorSpace_kUndefined,
                        bi_sample_range = SampleRange_kUndefined,
                        bi_blend_mode = BlendMode_kNone,
                        bi_fds_shared = MakeSharedFd (prime_fd k)\<rparr>
            else None)"
  using assms by (simp add: CreateBufferForModeset_def Let_def)

lemma release_blob_times_empty: "release_blob_times m None = []"
  by (induction m) (simp_all add: release_blob_def)

lemma release_blob_times_owner: "release_blob_times (Suc n) (Some b) = [MODE_DESTROYPROPBLOB b]"
  by (simp add: release_blob_def release_blob_times_empty)

text \<open>
  Claim C6. When the kernel has created a dumb buffer (the create ioctl succeeded and
  gave a handle, which is never 0), the kernel calls of \<open>CreateBufferForModeset\<close> are,
  in this order: the create, the map ioctl, \<open>mmap\<close> if the map ioctl succeeded, \<open>munmap\<close>
  of that mapping and the prime export if \<open>mmap\<close> succeeded, and last the destroy of the
  handle. So on every path the handle is destroyed exactly once, as the last call; a
  mapping that was made is unmapped exactly once and none is unmapped otherwise. The
  function returns no buffer exactly when the map ioctl, \<open>mmap\<close> or the export fails;
  when all three succeed the exported descriptor is in the returned buffer, as its
  first prime descriptor and owned by its shared descriptor handle. When the create
  ioctl fails nothing was acquired, nothing else is called and no buffer is returned.
  \<open>RegisterUserPropertyBlob\<close> makes one create call, carrying the data address and the
  low 32 bits of the length; a blob it created is owned by the returned handle, and
  releasing that handle, however often, issues exactly one destroy for the blob id;
  when the create fails the handle is empty and releasing it issues nothing.
\<close>

theorem kernel_resources_released:
  "(create_ret k = 0 \<and> create_handle k \<noteq> 0 \<longrightarrow>
      snd (CreateBufferForModeset k w h) =
        [MODE_CREATE_DUMB h w 32, MODE_MAP_DUMB (create_handle k)] @
        (if map_ret k \<noteq> 0 then []
         else MMAP (create_size k) (map_offset k) #
              (if mmap_ok k then [MUNMAP (create_size k), PRIME_HANDLE_TO_FD (create_handle k)]
               else [])) @
        [MODE_DESTROY_DUMB (create_handle k)] \<and>
      filter is_destroy_dumb (snd (CreateBufferForModeset k w h)) = [MODE_DESTROY_DUMB (create_handle k)] \<and>
      last (snd (CreateBufferForModeset k w h)) = MODE_DESTROY_DUMB (create_handle k) \<and>
      filter is_mmap (snd (CreateBufferForModeset k w h)) =
        (if map_ret k = 0 then [MMAP (create_size k) (map_offset k)] else []) \<and>
      filter is_munmap (snd (CreateBufferForModeset k w h)) =
        (if map_ret k = 0 \<and> mmap_ok k then [MUNMAP (create_size k)] else []) \<and>
      filter is_prime_export (snd (CreateBufferForModeset k w h)) =
        (if map_ret k = 0 \<and> mmap_ok k then [PRIME_HANDLE_TO_FD (create_handle k)] else []) \<and>
      fst (CreateBufferForModeset k w h) =
        (if map_ret k = 0 \<and> mmap_ok k \<and> prime_ret k = 0
         then Some \<lparr>bi_width = w, bi_height = h, bi_format = DRM_FORMAT_XRGB8888,
                     bi_pitches = [create_pitch k, 0, 0, 0],
                     bi_prime_fds = [prime_fd k, - 1, - 1, - 1],
                     bi_modifiers = [DRM_FORMAT_MOD_NONE, 0, 0, 0],
                     bi_color_space = ColorSpace_kUndefined,
                     bi_sample_range = SampleRange_kUndefined,
                     bi_blend_mode = BlendMode_kNone,
                     bi_fds_shared = MakeSharedFd (prime_fd k)\<rparr>
         else None) \<and>
      (fst (CreateBufferForModeset k w h) = None \<longleftrightarrow>
         map_ret k \<noteq> 0 \<or> \<not> mmap_ok k \<or> prime_ret k \<noteq> 0)) \<and>
   (create_ret k \<noteq> 0 \<longrightarrow>
      CreateBufferForModeset k w h = (None, [MODE_CREATE_DUMB h w 32])) \<and>
   (fst a = 0 \<longrightarrow>
      RegisterUserPropertyBlob a data len = (Some (snd a), [MODE_CREATEPROPBLOB data (ucast len)]) \<and>
      release_blob_times (Suc n) (fst (RegisterUserPropertyBlob a data len)) =
        [MODE_DESTROYPROPBLOB (snd a)]) \<and>
   (fst a \<noteq> 0 \<longrightarrow>
      RegisterUserPropertyBlob a data len = (None, [MODE_CREATEPROPBLOB data (ucast len)]) \<and>
      release_blob_times n (fst (RegisterUserPropertyBlob a data len)) = [])"
proof (intro conjI impI)
  assume a: "create_ret k = 0 \<and> create_handle k \<noteq> 0"
  note calls = CreateBufferForModeset_calls [OF conjunct1 [OF a] conjunct2 [OF a], of w h]
  note res = CreateBufferForModeset_result [OF conjunct1 [OF a], of w h]
  show "snd (CreateBufferForModeset k w h) =
        [MODE_CREATE_DUMB h w 32, MODE_MAP_DUMB (create_handle k)] @
        (if map_ret k \<noteq> 0 then []
         else MMAP (create_size k) (map_offset k) #
              (if mmap_ok k then [MUNMAP (create_size k), PRIME_HANDLE_TO_FD (create_handle k)]
               else [])) @
        [MODE_DESTROY_DUMB (create_handle k)]"
    by (rule calls)
  show "filter is_destroy_dumb (snd (CreateBufferForModeset k w h)) = [MODE_DESTROY_DUMB (create_handle k)]"
    unfolding calls by (simp add: is_destroy_dumb_def)
  show "last (snd (CreateBufferForModeset k w h)) = MODE_DESTROY_DUMB (create_handle k)"
    unfolding calls by simp
  show "filter is_mmap (snd (CreateBufferForModeset k w h)) =
        (if map_ret k = 0 then [MMAP (create_size k) (map_offset k)] else [])"
    unfolding calls by (simp add: is_mmap_def)
  show "filter is_munmap (snd (CreateBufferForModeset k w h)) =
        (if map_ret k = 0 \<and> mmap_ok k then [MUNMAP (create_size k)] else [])"
    unfolding calls by (simp add: is_munmap_def)
  show "filter is_prime_export (snd (CreateBufferForModeset k w h)) =
        (if map_ret k = 0 \<and> mmap_ok k then [PRIME_HANDLE_TO_FD (create_handle k)] else [])"
    unfolding calls by (simp add: is_prime_export_def)
  show "fst (CreateBufferForModeset k w h) =
        (if map_ret k = 0 \<and> mmap_ok k \<and> prime_ret k = 0
         then Some \<lparr>bi_width = w, bi_height = h, bi_format = DRM_FORMAT_XRGB8888,
                     bi_pitches = [create_pitch k, 0, 0, 0],
                     bi_prime_fds = [prime_fd k, - 1, - 1, - 1],
                     bi_modifiers = [DRM_FORMAT_MOD_NONE, 0, 0, 0],
                     bi_color_space = ColorSpace_kUndefined,
                     bi_sample_range = SampleRange_kUndefined,
                     bi_blend_mode = BlendMode_kNone,
                     bi_fds_shared = MakeSharedFd (prime_fd k)\<rparr>
         else None)"
    by (rule res)
  show "fst (CreateBufferForModeset k w h) = None \<longleftrightarrow>
         map_ret k \<noteq> 0 \<or> \<not> mmap_ok k \<or> prime_ret k \<noteq> 0"
    unfolding res by simp
next
  assume "create_ret k \<noteq> 0"
  then show "CreateBufferForModeset k w h = (None, [MODE_CREATE_DUMB h w 32])"
    by (simp add: CreateBufferForModeset_def Let_def)
next
  assume "fst a = 0"
  then show reg: "RegisterUserPropertyBlob a data len = (Some (snd a), [MODE_CREATEPROPBLOB data (ucast len)])"
    by (simp add: RegisterUserPropertyBlob_def Let_def)
  show "release_blob_times (Suc n) (fst (RegisterUserPropertyBlob a data len)) =
        [MODE_DESTROYPROPBLOB (snd a)]"
    by (simp only: reg fst_conv release_blob_times_owner)
next
  assume "fst a \<noteq> 0"
  then show reg: "RegisterUserPropertyBlob a data len = (None, [MODE_CREATEPROPBLOB data (ucast len)])"
    by (simp add: RegisterUserPropertyBlob_def Let_def)
  show "release_blob_times n (fst (RegisterUserPropertyBlob a data len)) = []"
    by (simp only: reg fst_conv release_blob_times_empty)
qed

text \<open>On a kernel that creates dumb buffer 5: the map ioctl fails; then \<open>mmap\<close> fails; then
  the export fails; then all succeed and descriptor 9 is exported; and a kernel that
  creates no buffer. A blob of 16 bytes with id 77, one whose length is \<open>2 ^ 32 + 16\<close>,
  and a blob the kernel refuses.\<close>

theorem kernel_resources_released_witness:
  "CreateBufferForModeset map_fails 1920 1080 =
     (None, [MODE_CREATE_DUMB 1080 1920 32, MODE_MAP_DUMB 5, MODE_DESTROY_DUMB 5]) \<and>
   CreateBufferForModeset (map_fails\<lparr>map_ret := 0\<rparr>) 1920 1080 =
     (None, [MODE_CREATE_DUMB 1080 1920 32, MODE_MAP_DUMB 5, MMAP 8294400 0, MODE_DESTROY_DUMB 5]) \<and>
   CreateBufferForModeset (map_fails\<lparr>map_ret := 0, mmap_ok := True\<rparr>) 1920 1080 =
     (None, [MODE_CREATE_DUMB 1080 1920 32, MODE_MAP_DUMB 5, MMAP 8294400 0, MUNMAP 8294400,
             PRIME_HANDLE_TO_FD 5, MODE_DESTROY_DUMB 5]) \<and>
   CreateBufferForModeset (map_fails\<lparr>map_ret := 0, mmap_ok := True, prime_ret := 0, prime_fd := 9\<rparr>)
       1920 1080 =
     (Some \<lparr>bi_width = 1920, bi_height = 1080, bi_format = DRM_FORMAT_XRGB8888,
            bi_pitches = [7680, 0, 0, 0], bi_prime_fds = [9, - 1, - 1, - 1],
            bi_modifiers = [DRM_FORMAT_MOD_NONE, 0, 0, 0], bi_color_space = ColorSpace_kUndefined,
            bi_sample_range = SampleRange_kUndefined, bi_blend_mode = BlendMode_kNone,
            bi_fds_shared = Some 9\<rparr>,
      [MODE_CREATE_DUMB 1080 1920 32, MODE_MAP_DUMB 5, MMAP 8294400 0, MUNMAP 8294400,
       PRIME_HANDLE_TO_FD 5, MODE_DESTROY_DUMB 5]) \<and>
   CreateBufferForModeset (map_fails\<lparr>create_ret := - 1, create_handle := 0\<rparr>) 1920 1080 =
     (None, [MODE_CREATE_DUMB 1080 1920 32]) \<and>
   RegisterUserPropertyBlob (0, 77) 0x7f0000001000 16 = (Some 77, [MODE_CREATEPROPBLOB 0x7f0000001000 16]) \<and>
   RegisterUserPropertyBlob (0, 77) 0x7f0000001000 4294967312 =
     (Some 77, [MODE_CREATEPROPBLOB 0x7f0000001000 16]) \<and>
   release_blob_times 3 (fst (RegisterUserPropertyBlob (0, 77) 0x7f0000001000 16)) =
     [MODE_DESTROYPROPBLOB 77] \<and>
   RegisterUserPropertyBlob (- 1, 0) 0x7f0000001000 16 = (None, [MODE_CREATEPROPBLOB 0x7f0000001000 16]) \<and>
   release_blob_times 3 (fst (RegisterUserPropertyBlob (- 1, 0) 0x7f0000001000 16)) = []"
proof -
  have k1: "create_ret map_fails = 0 \<and> create_handle map_fails \<noteq> 0"
    by (simp add: map_fails_def)
  have trunc: "(ucast (4294967312 :: u64) :: u32) = 16" "(ucast (16 :: u64) :: u32) = 16"
    by simp_all
  have three: "Suc 2 = (3 :: nat)"
    by simp
  have ok: "fst ((0 :: int), (77 :: u32)) = 0" and bad: "fst ((- 1 :: int), (0 :: u32)) \<noteq> 0"
    by simp_all
  have p1: "CreateBufferForModeset map_fails 1920 1080 =
     (None, [MODE_CREATE_DUMB 1080 1920 32, MODE_MAP_DUMB 5, MODE_DESTROY_DUMB 5])"
    using kernel_resources_released [of map_fails 1920 1080 "(0, 77)" "0x7f0000001000" 16 2] k1
    by (simp add: map_fails_def prod_eq_iff)
  have p2: "CreateBufferForModeset (map_fails\<lparr>map_ret := 0\<rparr>) 1920 1080 =
     (None, [MODE_CREATE_DUMB 1080 1920 32, MODE_MAP_DUMB 5, MMAP 8294400 0, MODE_DESTROY_DUMB 5])"
    using kernel_resources_released [of "map_fails\<lparr>map_ret := 0\<rparr>" 1920 1080 "(0, 77)"
        "0x7f0000001000" 16 2] k1
    by (simp add: map_fails_def prod_eq_iff)
  have p3: "CreateBufferForModeset (map_fails\<lparr>map_ret := 0, mmap_ok := True\<rparr>) 1920 1080 =
     (None, [MODE_CREATE_DUMB 1080 1920 32, MODE_MAP_DUMB 5, MMAP 8294400 0, MUNMAP 8294400,
             PRIME_HANDLE_TO_FD 5, MODE_DESTROY_DUMB 5])"
    using kernel_resources_released [of "map_fails\<lparr>map_ret := 0, mmap_ok := True\<rparr>" 1920 1080
        "(0, 77)" "0x7f0000001000" 16 2] k1
    by (simp add: map_fails_def prod_eq_iff)
  have p4: "CreateBufferForModeset (map_fails\<lparr>map_ret := 0, mmap_ok := True, prime_ret := 0, prime_fd := 9\<rparr>)
       1920 1080 =
     (Some \<lparr>bi_width = 1920, bi_height = 1080, bi_format = DRM_FORMAT_XRGB8888,
            bi_pitches = [7680, 0, 0, 0], bi_prime_fds = [9, - 1, - 1, - 1],
            bi_modifiers = [DRM_FORMAT_MOD_NONE, 0, 0, 0], bi_color_space = ColorSpace_kUndefined,
            bi_sample_range = SampleRange_kUndefined, bi_blend_mode = BlendMode_kNone,
            bi_fds_shared = Some 9\<rparr>,
      [MODE_CREATE_DUMB 1080 1920 32, MODE_MAP_DUMB 5, MMAP 8294400 0, MUNMAP 8294400,
       PRIME_HANDLE_TO_FD 5, MODE_DESTROY_DUMB 5])"
    using kernel_resources_released [of
        "map_fails\<lparr>map_ret := 0, mmap_ok := True, prime_ret := 0, prime_fd := 9\<rparr>" 1920 1080
        "(0, 77)" "0x7f0000001000" 16 2] k1
    by (simp add: map_fails_def prod_eq_iff MakeSharedFd_def)
  have p5: "CreateBufferForModeset (map_fails\<lparr>create_ret := - 1, create_handle := 0\<rparr>) 1920 1080 =
     (None, [MODE_CREATE_DUMB 1080 1920 32])"
    using kernel_resources_released [of "map_fails\<lparr>create_ret := - 1, create_handle := 0\<rparr>" 1920 1080
        "(0, 77)" "0x7f0000001000" 16 2]
    by (simp add: map_fails_def)
  have "RegisterUserPropertyBlob (0, 77) 0x7f0000001000 16 =
          (Some (snd ((0 :: int), (77 :: u32))), [MODE_CREATEPROPBLOB 0x7f0000001000 (ucast (16 :: u64))])"
    and "release_blob_times (Suc 2) (fst (RegisterUserPropertyBlob (0, 77) 0x7f0000001000 16)) =
          [MODE_DESTROYPROPBLOB (snd ((0 :: int), (77 :: u32)))]"
    using kernel_resources_released [of map_fails 1920 1080 "(0, 77)" "0x7f0000001000" 16 2] ok
    by blast+
  then have b1: "RegisterUserPropertyBlob (0, 77) 0x7f0000001000 16 =
      (Some 77, [MODE_CREATEPROPBLOB 0x7f0000001000 16])"
    "release_blob_times 3 (fst (RegisterUserPropertyBlob (0, 77) 0x7f0000001000 16)) =
     [MODE_DESTROYPROPBLOB 77]"
    by (simp_all only: snd_conv trunc three)
  have "RegisterUserPropertyBlob (0, 77) 0x7f0000001000 4294967312 =
          (Some (snd ((0 :: int), (77 :: u32))),
           [MODE_CREATEPROPBLOB 0x7f0000001000 (ucast (4294967312 :: u64))])"
    using kernel_resources_released [of map_fails 1920 1080 "(0, 77)" "0x7f0000001000" 4294967312 2] ok
    by blast
  then have b2: "RegisterUserPropertyBlob (0, 77) 0x7f0000001000 4294967312 =
     (Some 77, [MODE_CREATEPROPBLOB 0x7f0000001000 16])"
    by (simp only: snd_conv trunc)
  have "RegisterUserPropertyBlob (- 1, 0) 0x7f0000001000 16 =
          (None, [MODE_CREATEPROPBLOB 0x7f0000001000 (ucast (16 :: u64))])"
    and b3': "release_blob_times 3 (fst (RegisterUserPropertyBlob (- 1, 0) 0x7f0000001000 16)) = []"
    using kernel_resources_released [of map_fails 1920 1080 "(- 1, 0)" "0x7f0000001000" 16 3] bad
    by blast+
  then have b3: "RegisterUserPropertyBlob (- 1, 0) 0x7f0000001000 16 =
      (None, [MODE_CREATEPROPBLOB 0x7f0000001000 16])"
    by (simp only: trunc)
  show ?thesis
    using p1 p2 p3 p4 p5 b1 b2 b3 b3' by simp
qed

section \<open>The layer setters\<close>

lemma GET_DISPLAY_bad:
  "GetDisplay dev d = None \<Longrightarrow> GET_DISPLAY dev d = Inl (Error_to_int32 Error_BadDisplay)"
  by (simp add: GET_DISPLAY_def)

lemma GET_LAYER_bad:
  "GetDisplay dev d = Some disp \<Longrightarrow> get_layer disp l = None \<Longrightarrow>
   GET_DISPLAY dev d = Inr disp \<and> GET_LAYER disp l = Inl (Error_to_int32 Error_BadLayer)"
  by (simp add: GET_DISPLAY_def GET_LAYER_def)

lemma GET_both:
  "GetDisplay dev d = Some disp \<Longrightarrow> get_layer disp l = Some lay \<Longrightarrow>
   GET_DISPLAY dev d = Inr disp \<and> GET_LAYER disp l = Inr lay"
  by (simp add: GET_DISPLAY_def GET_LAYER_def)

lemma layer_of_write_layer:
  "GetDisplay dev d = Some disp \<Longrightarrow> layer_of (write_layer dev d l lay') d l = Some lay'"
  by (simp add: layer_of_def write_layer_def GetDisplay_def get_layer_def)

lemma layer_of_write_layer_other:
  "(d', l') \<noteq> (d, l) \<Longrightarrow> layer_of (write_layer dev d l lay') d' l' = layer_of dev d' l'"
  by (auto simp: layer_of_def write_layer_def GetDisplay_def get_layer_def split: option.splits)

lemma stage_transform:
  "SetLayerProperties lay (no_properties\<lparr>transform := Some x\<rparr>) = lay\<lparr>transform := Some x\<rparr>"
  by (cases lay) (simp add: SetLayerProperties_def no_properties_def staged_def)

lemma stage_blend_mode:
  "SetLayerProperties lay (no_properties\<lparr>blend_mode := Some x\<rparr>) = lay\<lparr>blend_mode := Some x\<rparr>"
  by (cases lay) (simp add: SetLayerProperties_def no_properties_def staged_def)

lemma bit_flags:
  "(t AND HAL_TRANSFORM_FLIP_H \<noteq> 0) = bit t 0"
  "(t AND HAL_TRANSFORM_FLIP_V \<noteq> 0) = bit t 1"
  "(t AND HAL_TRANSFORM_ROT_90 \<noteq> 0) = bit t 2"
  for t :: int32_t
proof -
  have "(t AND 2 ^ n = 0) = (\<not> bit t n)" for n
    by (rule and_exp_eq_0_iff_not_bit)
  from this [of 0] this [of 1] this [of 2]
  show "(t AND HAL_TRANSFORM_FLIP_H \<noteq> 0) = bit t 0"
    "(t AND HAL_TRANSFORM_FLIP_V \<noteq> 0) = bit t 1"
    "(t AND HAL_TRANSFORM_ROT_90 \<noteq> 0) = bit t 2"
    by (simp_all add: HAL_TRANSFORM_FLIP_H_def HAL_TRANSFORM_FLIP_V_def HAL_TRANSFORM_ROT_90_def)
qed

lemma one_layer_lookups:
  "GetDisplay one_layer 5 = None"
  "GetDisplay one_layer 0 = Some \<lparr>m_layers = [1 \<mapsto> no_properties\<lparr>z_order := Some 4\<rparr>]\<rparr>"
  "get_layer \<lparr>m_layers = [1 \<mapsto> no_properties\<lparr>z_order := Some 4\<rparr>]\<rparr> 7 = None"
  "layer_of one_layer 0 1 = Some (no_properties\<lparr>z_order := Some 4\<rparr>)"
  by (simp_all add: one_layer_def GetDisplay_def get_layer_def layer_of_def)

text \<open>
  Claim C1. For each of the nine layer setters (\<open>SetLayerBlendMode\<close>, \<open>SetLayerBuffer\<close>,
  \<open>SetLayerDataspace\<close>, \<open>SetLayerCompositionType\<close>, \<open>SetLayerDisplayFrame\<close>,
  \<open>SetLayerPlaneAlpha\<close>, \<open>SetLayerSourceCrop\<close>, \<open>SetLayerTransform\<close>, \<open>SetLayerZOrder\<close>):
  when the display handle resolves to no display the call returns \<open>BadDisplay\<close>, and
  when it resolves to a display on which the layer handle resolves to no layer the call
  returns \<open>BadLayer\<close>; in both cases the composer state, with all its displays and
  layers, is the one the call was given. Both results are nonzero.
\<close>

theorem setters_bad_handle:
  "(GetDisplay dev d = None \<longrightarrow>
      SetLayerBlendMode dev d l mode = (Error_to_int32 Error_BadDisplay, dev) \<and>
      SetLayerBuffer dev d l buf fence = (Error_to_int32 Error_BadDisplay, dev) \<and>
      SetLayerDataspace dev d l dataspace = (Error_to_int32 Error_BadDisplay, dev) \<and>
      SetLayerCompositionType dev d l ty = (Error_to_int32 Error_BadDisplay, dev) \<and>
      SetLayerDisplayFrame dev d l frame = (Error_to_int32 Error_BadDisplay, dev) \<and>
      SetLayerPlaneAlpha dev d l a = (Error_to_int32 Error_BadDisplay, dev) \<and>
      SetLayerSourceCrop dev d l crop = (Error_to_int32 Error_BadDisplay, dev) \<and>
      SetLayerTransform dev d l t = (Error_to_int32 Error_BadDisplay, dev) \<and>
      SetLayerZOrder dev d l z = (Error_to_int32 Error_BadDisplay, dev)) \<and>
   (\<forall>disp. GetDisplay dev d = Some disp \<and> get_layer disp l = None \<longrightarrow>
      SetLayerBlendMode dev d l mode = (Error_to_int32 Error_BadLayer, dev) \<and>
      SetLayerBuffer dev d l buf fence = (Error_to_int32 Error_BadLayer, dev) \<and>
      SetLayerDataspace dev d l dataspace = (Error_to_int32 Error_BadLayer, dev) \<and>
      SetLayerCompositionType dev d l ty = (Error_to_int32 Error_BadLayer, dev) \<and>
      SetLayerDisplayFrame dev d l frame = (Error_to_int32 Error_BadLayer, dev) \<and>
      SetLayerPlaneAlpha dev d l a = (Error_to_int32 Error_BadLayer, dev) \<and>
      SetLayerSourceCrop dev d l crop = (Error_to_int32 Error_BadLayer, dev) \<and>
      SetLayerTransform dev d l t = (Error_to_int32 Error_BadLayer, dev) \<and>
      SetLayerZOrder dev d l z = (Error_to_int32 Error_BadLayer, dev)) \<and>
   Error_to_int32 Error_BadDisplay \<noteq> 0 \<and> Error_to_int32 Error_BadLayer \<noteq> 0"
proof (intro conjI allI impI)
  assume "GetDisplay dev d = None"
  note bad = GET_DISPLAY_bad [OF this]
  show "SetLayerBlendMode dev d l mode = (Error_to_int32 Error_BadDisplay, dev)"
    by (simp only: SetLayerBlendMode_def bad sum.case)
  show "SetLayerBuffer dev d l buf fence = (Error_to_int32 Error_BadDisplay, dev)"
    by (simp only: SetLayerBuffer_def bad sum.case)
  show "SetLayerDataspace dev d l dataspace = (Error_to_int32 Error_BadDisplay, dev)"
    by (simp only: SetLayerDataspace_def bad sum.case)
  show "SetLayerCompositionType dev d l ty = (Error_to_int32 Error_BadDisplay, dev)"
    by (simp only: SetLayerCompositionType_def bad sum.case)
  show "SetLayerDisplayFrame dev d l frame = (Error_to_int32 Error_BadDisplay, dev)"
    by (simp only: SetLayerDisplayFrame_def bad sum.case)
  show "SetLayerPlaneAlpha dev d l a = (Error_to_int32 Error_BadDisplay, dev)"
    by (simp only: SetLayerPlaneAlpha_def bad sum.case)
  show "SetLayerSourceCrop dev d l crop = (Error_to_int32 Error_BadDisplay, dev)"
    by (simp only: SetLayerSourceCrop_def bad sum.case)
  show "SetLayerTransform dev d l t = (Error_to_int32 Error_BadDisplay, dev)"
    by (simp only: SetLayerTransform_def bad sum.case)
  show "SetLayerZOrder dev d l z = (Error_to_int32 Error_BadDisplay, dev)"
    by (simp only: SetLayerZOrder_def bad sum.case)
next
  fix disp
  assume "GetDisplay dev d = Some disp \<and> get_layer disp l = None"
  then have bad: "GET_DISPLAY dev d = Inr disp" "GET_LAYER disp l = Inl (Error_to_int32 Error_BadLayer)"
    using GET_LAYER_bad by blast+
  show "SetLayerBlendMode dev d l mode = (Error_to_int32 Error_BadLayer, dev)"
    by (simp only: SetLayerBlendMode_def bad sum.case)
  show "SetLayerBuffer dev d l buf fence = (Error_to_int32 Error_BadLayer, dev)"
    by (simp only: SetLayerBuffer_def bad sum.case)
  show "SetLayerDataspace dev d l dataspace = (Error_to_int32 Error_BadLayer, dev)"
    by (simp only: SetLayerDataspace_def bad sum.case)
  show "SetLayerCompositionType dev d l ty = (Error_to_int32 Error_BadLayer, dev)"
    by (simp only: SetLayerCompositionType_def bad sum.case)
  show "SetLayerDisplayFrame dev d l frame = (Error_to_int32 Error_BadLayer, dev)"
    by (simp only: SetLayerDisplayFrame_def bad sum.case)
  show "SetLayerPlaneAlpha dev d l a = (Error_to_int32 Error_BadLayer, dev)"
    by (simp only: SetLayerPlaneAlpha_def bad sum.case)
  show "SetLayerSourceCrop dev d l crop = (Error_to_int32 Error_BadLayer, dev)"
    by (simp only: SetLayerSourceCrop_def bad sum.case)
  show "SetLayerTransform dev d l t = (Error_to_int32 Error_BadLayer, dev)"
    by (simp only: SetLayerTransform_def bad sum.case)
  show "SetLayerZOrder dev d l z = (Error_to_int32 Error_BadLayer, dev)"
    by (simp only: SetLayerZOrder_def bad sum.case)
qed simp_all

theorem setters_bad_handle_witness:
  "SetLayerBlendMode one_layer 5 1 2 = (2, one_layer) \<and>
   SetLayerBuffer one_layer 5 1 4096 (- 1) = (2, one_layer) \<and>
   SetLayerDataspace one_layer 5 1 0 = (2, one_layer) \<and>
   SetLayerCompositionType one_layer 5 1 2 = (2, one_layer) \<and>
   SetLayerDisplayFrame one_layer 5 1 some_frame = (2, one_layer) \<and>
   SetLayerPlaneAlpha one_layer 5 1 0x3F800000 = (2, one_layer) \<and>
   SetLayerSourceCrop one_layer 5 1 some_crop = (2, one_layer) \<and>
   SetLayerTransform one_layer 5 1 4 = (2, one_layer) \<and>
   SetLayerZOrder one_layer 5 1 3 = (2, one_layer) \<and>
   SetLayerBlendMode one_layer 0 7 2 = (3, one_layer) \<and>
   SetLayerBuffer one_layer 0 7 4096 (- 1) = (3, one_layer) \<and>
   SetLayerDataspace one_layer 0 7 0 = (3, one_layer) \<and>
   SetLayerCompositionType one_layer 0 7 2 = (3, one_layer) \<and>
   SetLayerDisplayFrame one_layer 0 7 some_frame = (3, one_layer) \<and>
   SetLayerPlaneAlpha one_layer 0 7 0x3F800000 = (3, one_layer) \<and>
   SetLayerSourceCrop one_layer 0 7 some_crop = (3, one_layer) \<and>
   SetLayerTransform one_layer 0 7 4 = (3, one_layer) \<and>
   SetLayerZOrder one_layer 0 7 3 = (3, one_layer)"
  using one_layer_lookups(1,2,3)
    setters_bad_handle [of one_layer 5 1 2 4096 "- 1" 0 2 some_frame "0x3F800000" some_crop 4 3]
    setters_bad_handle [of one_layer 0 7 2 4096 "- 1" 0 2 some_frame "0x3F800000" some_crop 4 3]
  by simp

text \<open>
  Claim C4. For every transform value \<open>t\<close> and handles that resolve to a layer,
  \<open>SetLayerTransform\<close> returns 0 and stages on that layer a transform whose \<open>hflip\<close> is
  bit 0 of \<open>t\<close> (\<open>HAL_TRANSFORM_FLIP_H\<close>), whose \<open>vflip\<close> is bit 1 (\<open>HAL_TRANSFORM_FLIP_V\<close>)
  and whose \<open>rotate90\<close> is bit 2 (\<open>HAL_TRANSFORM_ROT_90\<close>); the layer's other staged
  properties and every other layer are as before.
\<close>

theorem SetLayerTransform_flags:
  "layer_of dev d l = Some lay \<longrightarrow>
     fst (SetLayerTransform dev d l t) = 0 \<and>
     layer_of (snd (SetLayerTransform dev d l t)) d l =
       Some (lay\<lparr>transform := Some \<lparr>hflip = bit t 0, vflip = bit t 1, rotate90 = bit t 2\<rparr>\<rparr>) \<and>
     (\<forall>d' l'. (d', l') \<noteq> (d, l) \<longrightarrow>
        layer_of (snd (SetLayerTransform dev d l t)) d' l' = layer_of dev d' l') \<and>
     HAL_TRANSFORM_FLIP_H = 2 ^ 0 \<and> HAL_TRANSFORM_FLIP_V = 2 ^ 1 \<and> HAL_TRANSFORM_ROT_90 = 2 ^ 2"
proof
  assume a: "layer_of dev d l = Some lay"
  then obtain disp where disp: "GetDisplay dev d = Some disp" "get_layer disp l = Some lay"
    by (auto simp: layer_of_def split: option.splits)
  note g = GET_both [OF disp]
  have eq: "SetLayerTransform dev d l t =
     (0, write_layer dev d l (lay\<lparr>transform := Some \<lparr>hflip = bit t 0, vflip = bit t 1, rotate90 = bit t 2\<rparr>\<rparr>))"
    by (simp only: SetLayerTransform_def g sum.case Let_def stage_transform bit_flags)
  show "fst (SetLayerTransform dev d l t) = 0 \<and>
     layer_of (snd (SetLayerTransform dev d l t)) d l =
       Some (lay\<lparr>transform := Some \<lparr>hflip = bit t 0, vflip = bit t 1, rotate90 = bit t 2\<rparr>\<rparr>) \<and>
     (\<forall>d' l'. (d', l') \<noteq> (d, l) \<longrightarrow>
        layer_of (snd (SetLayerTransform dev d l t)) d' l' = layer_of dev d' l') \<and>
     HAL_TRANSFORM_FLIP_H = 2 ^ 0 \<and> HAL_TRANSFORM_FLIP_V = 2 ^ 1 \<and> HAL_TRANSFORM_ROT_90 = 2 ^ 2"
    unfolding eq
    by (simp add: layer_of_write_layer [OF disp(1)] layer_of_write_layer_other
        HAL_TRANSFORM_FLIP_H_def HAL_TRANSFORM_FLIP_V_def HAL_TRANSFORM_ROT_90_def)
qed

theorem SetLayerTransform_flags_witness:
  "SetLayerTransform one_layer 0 1 5 =
     (0, write_layer one_layer 0 1
           (no_properties\<lparr>z_order := Some 4,
                          transform := Some \<lparr>hflip = True, vflip = False, rotate90 = True\<rparr>\<rparr>)) \<and>
   layer_of (snd (SetLayerTransform one_layer 0 1 5)) 0 1 =
     Some (no_properties\<lparr>z_order := Some 4,
                          transform := Some \<lparr>hflip = True, vflip = False, rotate90 = True\<rparr>\<rparr>)"
proof -
  have "layer_of (snd (SetLayerTransform one_layer 0 1 5)) 0 1 =
     Some (no_properties\<lparr>z_order := Some 4,
                          transform := Some \<lparr>hflip = True, vflip = False, rotate90 = True\<rparr>\<rparr>)"
    using SetLayerTransform_flags [of one_layer 0 1 "no_properties\<lparr>z_order := Some 4\<rparr>" 5]
      one_layer_lookups(4)
    by simp
  moreover have "SetLayerTransform one_layer 0 1 5 =
     (0, write_layer one_layer 0 1
           (no_properties\<lparr>z_order := Some 4,
                          transform := Some \<lparr>hflip = True, vflip = False, rotate90 = True\<rparr>\<rparr>))"
    by (simp add: SetLayerTransform_def GET_DISPLAY_def GET_LAYER_def one_layer_lookups(2)
        get_layer_def stage_transform HAL_TRANSFORM_FLIP_H_def HAL_TRANSFORM_FLIP_V_def
        HAL_TRANSFORM_ROT_90_def)
  ultimately show ?thesis by simp
qed

text \<open>
  Claim C5. For every mode value and handles that resolve to a layer,
  \<open>SetLayerBlendMode\<close> returns 0 and stages \<open>kNone\<close> for \<open>None\<close>, \<open>kPreMult\<close> for
  \<open>Premultiplied\<close>, \<open>kCoverage\<close> for \<open>Coverage\<close> and \<open>kUndefined\<close> for any other value; the
  layer's other staged properties and every other layer are as before.
\<close>

theorem SetLayerBlendMode_staged:
  "layer_of dev d l = Some lay \<longrightarrow>
     fst (SetLayerBlendMode dev d l mode) = 0 \<and>
     layer_of (snd (SetLayerBlendMode dev d l mode)) d l =
       Some (lay\<lparr>blend_mode :=
         Some (if mode = BlendMode_None then BlendMode_kNone
               else if mode = BlendMode_Premultiplied then BlendMode_kPreMult
               else if mode = BlendMode_Coverage then BlendMode_kCoverage
               else BlendMode_kUndefined)\<rparr>) \<and>
     (\<forall>d' l'. (d', l') \<noteq> (d, l) \<longrightarrow>
        layer_of (snd (SetLayerBlendMode dev d l mode)) d' l' = layer_of dev d' l')"
proof
  assume a: "layer_of dev d l = Some lay"
  then obtain disp where disp: "GetDisplay dev d = Some disp" "get_layer disp l = Some lay"
    by (auto simp: layer_of_def split: option.splits)
  note g = GET_both [OF disp]
  have eq: "SetLayerBlendMode dev d l mode =
     (0, write_layer dev d l (lay\<lparr>blend_mode :=
         Some (if mode = BlendMode_None then BlendMode_kNone
               else if mode = BlendMode_Premultiplied then BlendMode_kPreMult
               else if mode = BlendMode_Coverage then BlendMode_kCoverage
               else BlendMode_kUndefined)\<rparr>))"
    by (simp only: SetLayerBlendMode_def g sum.case Let_def stage_blend_mode)
  show "fst (SetLayerBlendMode dev d l mode) = 0 \<and>
     layer_of (snd (SetLayerBlendMode dev d l mode)) d l =
       Some (lay\<lparr>blend_mode :=
         Some (if mode = BlendMode_None then BlendMode_kNone
               else if mode = BlendMode_Premultiplied then BlendMode_kPreMult
               else if mode = BlendMode_Coverage then BlendMode_kCoverage
               else BlendMode_kUndefined)\<rparr>) \<and>
     (\<forall>d' l'. (d', l') \<noteq> (d, l) \<longrightarrow>
        layer_of (snd (SetLayerBlendMode dev d l mode)) d' l' = layer_of dev d' l')"
    unfolding eq
    by (simp add: layer_of_write_layer [OF disp(1)] layer_of_write_layer_other)
qed

theorem SetLayerBlendMode_staged_witness:
  "fst (SetLayerBlendMode one_layer 0 1 2) = 0 \<and>
   layer_of (snd (SetLayerBlendMode one_layer 0 1 2)) 0 1 =
     Some (no_properties\<lparr>z_order := Some 4, blend_mode := Some BlendMode_kPreMult\<rparr>) \<and>
   fst (SetLayerBlendMode one_layer 0 1 77) = 0 \<and>
   layer_of (snd (SetLayerBlendMode one_layer 0 1 77)) 0 1 =
     Some (no_properties\<lparr>z_order := Some 4, blend_mode := Some BlendMode_kUndefined\<rparr>)"
  using SetLayerBlendMode_staged [of one_layer 0 1 "no_properties\<lparr>z_order := Some 4\<rparr>" 2]
    SetLayerBlendMode_staged [of one_layer 0 1 "no_properties\<lparr>z_order := Some 4\<rparr>" 77]
    one_layer_lookups(4)
  by (simp add: BlendMode_None_def BlendMode_Premultiplied_def BlendMode_Coverage_def)

section \<open>The composition planner: planning twice\<close>

lemma reset_mark [simp]: "reset_assigned (mark_assigned pid planes) = reset_assigned planes"
  by (induction planes) (simp_all add: reset_assigned_def mark_assigned_def)

lemma reset_reset [simp]: "reset_assigned (reset_assigned planes) = reset_assigned planes"
  by (simp add: reset_assigned_def)

lemma reset_reserve_cursor:
  "reset_assigned (snd (reserve_cursor bounds ls planes)) = reset_assigned planes"
  by (simp add: reserve_cursor_def split: option.splits)

lemma reset_bind_layers:
  "reset_assigned (snd (bind_layers regresses bounds cur ls planes)) = reset_assigned planes"
  by (induction ls arbitrary: planes) (auto simp: case_prod_beta split: option.splits)

lemma reset_Plan:
  "reset_assigned (snd (Plan regresses bounds ls planes)) = reset_assigned planes"
proof -
  obtain cur p1 where r: "reserve_cursor bounds (sort_layers ls) (reset_assigned planes) = (cur, p1)"
    by (cases "reserve_cursor bounds (sort_layers ls) (reset_assigned planes)")
  obtain bs p2 where b: "bind_layers regresses bounds cur (sort_layers ls) p1 = (bs, p2)"
    by (cases "bind_layers regresses bounds cur (sort_layers ls) p1")
  have "reset_assigned p2 = reset_assigned p1"
    using reset_bind_layers [of regresses bounds cur "sort_layers ls" p1] b by simp
  also have "\<dots> = reset_assigned planes"
    using reset_reserve_cursor [of bounds "sort_layers ls" "reset_assigned planes"] r by simp
  finally show ?thesis
    by (simp add: Plan_def r b)
qed

lemma Plan_reset_arg:
  "Plan regresses bounds ls (reset_assigned planes) = Plan regresses bounds ls planes"
  by (simp add: Plan_def)

lemma Plan_depends_on_reset:
  "reset_assigned planes' = reset_assigned planes \<Longrightarrow>
   Plan regresses bounds ls planes' = Plan regresses bounds ls planes"
  by (metis Plan_reset_arg)

text \<open>
  Claim C7. Calling \<open>Plan\<close> a second time with the same layers, on the registry as the
  first call left it, gives the plane-to-layer assignment of the first call again (and
  the same changed-types list and the same planes).
\<close>

theorem Plan_idempotent:
  "Plan regresses bounds ls (snd (Plan regresses bounds ls planes)) = Plan regresses bounds ls planes"
  by (rule Plan_depends_on_reset) (rule reset_Plan)

text \<open>On the first scenario of section 8: the primary plane takes the layer at z-order 0
  and the overlays those at 1 and 2, nothing changes type, and a second pass over the
  planes the first pass left (all three now marked assigned) gives the same plan.\<close>

theorem Plan_idempotent_witness:
  "fst (Plan no_regress (1920, 1080) three_layers three_planes) =
     \<lparr>assignment = [(3, Some 33), (2, Some 32), (1, Some 31)], changed_types = []\<rparr> \<and>
   snd (Plan no_regress (1920, 1080) three_layers three_planes) =
     mark_assigned 31 (mark_assigned 32 (mark_assigned 33 three_planes)) \<and>
   fst (Plan no_regress (1920, 1080) three_layers
          (snd (Plan no_regress (1920, 1080) three_layers three_planes))) =
     \<lparr>assignment = [(3, Some 33), (2, Some 32), (1, Some 31)], changed_types = []\<rparr>"
proof -
  have first: "Plan no_regress (1920, 1080) three_layers three_planes =
      (\<lparr>assignment = [(3, Some 33), (2, Some 32), (1, Some 31)], changed_types = []\<rparr>,
       mark_assigned 31 (mark_assigned 32 (mark_assigned 33 three_planes)))"
    by (simp add: Plan_def three_layers_def three_planes_def opaque_layer_def no_regress_def
        reset_assigned_def sort_layers_def precedes_def reserve_cursor_def outside_display_def
        bindable_def covers_def PlaneSupportsFormat_def xrgb_def mark_assigned_def final_type_def)
  show ?thesis
    using Plan_idempotent [of no_regress "(1920, 1080)" three_layers three_planes] first
    by simp
qed

end
